theory Spec2Isabelle
  imports
    Main
    "HOL-Library.Char_ord"
    "HOL-Library.List_Lexorder"
    "HOL-Library.Option_ord"
    "HOL-Library.Multiset"
    "HOL-Library.Log_Nat"
begin

section \<open>The ETL pipeline of etl.py\<close>

text \<open>
  The program reads two JSON data sets into Spark DataFrames (song data and log data),
  derives five tables from them with Spark SQL, and stores each table.

  A DataFrame is modelled as the list of its rows and a row as a record. Every column
  is nullable: a cell of type \<open>'a option\<close> is \<open>None\<close> where SQL has NULL. Spark
  fixes no order of the rows of a query result; the lists below list them in one
  order, and no statement depends on it except through \<open>row_number\<close>.

  Strings are compared as Spark compares them, byte by byte: \<open>string\<close> with the
  lexicographic order of \<open>List_Lexorder\<close> over \<open>Char_ord\<close>. The columns of type
  double (latitude, longitude, duration) are only ever compared, never computed with;
  their type is the parameter \<open>'d\<close>, any linear order. The type of the column \<open>ts\<close> of the
  log data is the parameter \<open>'t\<close>: \<open>int\<close> for a column of longs, which is what the data
  of the program has, and \<open>string\<close> for a column of strings, which Spark converts where
  the program computes with it.
\<close>

subsection \<open>SQL operators\<close>

text \<open>
  \<open>=\<close> in an \<open>ON\<close> or \<open>WHERE\<close> clause: the row is kept only when the comparison is
  true, and a comparison with a NULL operand is never true.
\<close>

definition sql_eq :: "'a option \<Rightarrow> 'a option \<Rightarrow> bool" where
  "sql_eq x y = (case x of None \<Rightarrow> False | Some a \<Rightarrow> (case y of None \<Rightarrow> False | Some b \<Rightarrow> a = b))"

definition non_null :: "'a option list \<Rightarrow> 'a list" where
  "non_null vs = map the (filter (\<lambda>v. v \<noteq> None) vs)"

text \<open>\<open>MIN\<close> and \<open>MAX\<close> skip NULLs and are NULL when nothing is left.\<close>

definition sql_min :: "'a::linorder option list \<Rightarrow> 'a option" where
  "sql_min vs = (case non_null vs of [] \<Rightarrow> None | x # xs \<Rightarrow> Some (fold min xs x))"

definition sql_max :: "'a::linorder option list \<Rightarrow> 'a option" where
  "sql_max vs = (case non_null vs of [] \<Rightarrow> None | x # xs \<Rightarrow> Some (fold max xs x))"

text \<open>
  \<open>GROUP BY key\<close>: one group per distinct value of the key, NULL being one value of
  its own; each group holds the rows with that key.
\<close>

definition group_by :: "('r \<Rightarrow> 'k) \<Rightarrow> 'r list \<Rightarrow> ('k \<times> 'r list) list" where
  "group_by key rs = map (\<lambda>k. (k, filter (\<lambda>r. key r = k) rs)) (remdups (map key rs))"

text \<open>\<open>A INNER JOIN B ON cond\<close>: every pair of a row of A and a row of B that meets the condition.\<close>

definition inner_join :: "('a \<Rightarrow> 'b \<Rightarrow> bool) \<Rightarrow> 'a list \<Rightarrow> 'b list \<Rightarrow> ('a \<times> 'b) list" where
  "inner_join cond as bs = concat (map (\<lambda>a. map (Pair a) (filter (cond a) bs)) as)"

text \<open>
  \<open>row_number().over(Window.orderBy(key))\<close>: the rows in ascending order of the key
  (NULLs first, as \<open>None\<close> is least in \<open>Option_ord\<close>), numbered from 1. Spark leaves
  the order of rows with equal keys open; the stable \<open>sort_key\<close> picks one.
\<close>

definition row_number_over :: "('r \<Rightarrow> 'k::linorder) \<Rightarrow> 'r list \<Rightarrow> (int \<times> 'r) list" where
  "row_number_over key rs = zip [1..int (length rs)] (sort_key key rs)"

subsection \<open>Song data: \<open>process_song_data\<close>\<close>

text \<open>A row of the view \<open>songs\<close>, the song data as read from JSON.\<close>

record 'd songs_rec =
  song_id :: "string option"
  title :: "string option"
  artist_id :: "string option"
  artist_name :: "string option"
  artist_location :: "string option"
  artist_latitude :: "'d option"
  artist_longitude :: "'d option"
  year :: "int option"
  duration :: "'d option"

record 'd songs_row =
  s_song_id :: "string option"
  s_title :: "string option"
  s_artist_id :: "string option"
  s_year :: "int option"
  s_duration :: "'d option"

record 'd artists_row =
  a_artist_id :: "string option"
  a_name :: "string option"
  a_location :: "string option"
  a_latitude :: "'d option"
  a_longitude :: "'d option"

text \<open>\<open>SELECT song_id, MIN(title), MIN(artist_id), MIN(year), MIN(duration) FROM songs GROUP BY song_id\<close>\<close>

definition songs_table :: "('d::linorder) songs_rec list \<Rightarrow> 'd songs_row list" where
  "songs_table songs =
     map (\<lambda>(k, g).
            \<lparr>s_song_id = k,
             s_title = sql_min (map title g),
             s_artist_id = sql_min (map artist_id g),
             s_year = sql_min (map year g),
             s_duration = sql_min (map duration g)\<rparr>)
         (group_by song_id songs)"

text \<open>\<open>SELECT artist_id, MIN(artist_name), MIN(artist_location), MIN(artist_latitude),
  MIN(artist_longitude) FROM songs GROUP BY artist_id\<close>\<close>

definition artists_table :: "('d::linorder) songs_rec list \<Rightarrow> 'd artists_row list" where
  "artists_table songs =
     map (\<lambda>(k, g).
            \<lparr>a_artist_id = k,
             a_name = sql_min (map artist_name g),
             a_location = sql_min (map artist_location g),
             a_latitude = sql_min (map artist_latitude g),
             a_longitude = sql_min (map artist_longitude g)\<rparr>)
         (group_by artist_id songs)"

text \<open>
  The property the specification asks of an aggregated cell, in its words: the cell is
  the least of the non-null values of the group, and NULL when the group has none.
\<close>

definition min_non_null :: "'a::linorder option \<Rightarrow> 'a option list \<Rightarrow> bool" where
  "min_non_null m vs =
     (case m of
        None \<Rightarrow> list_all (\<lambda>v. v = None) vs
      | Some x \<Rightarrow> Some x \<in> set vs \<and> list_all (\<lambda>v. case v of None \<Rightarrow> True | Some y \<Rightarrow> x \<le> y) vs)"

subsection \<open>Functions of Spark that the program calls\<close>

text \<open>
  A timestamp (\<open>TimestampType\<close>) is a count of microseconds since the epoch.

  The program leaves three computations to Spark's library: the cast of a string to
  \<open>int\<close>, the expression \<open>(ts / 1000.0).cast(TimestampType())\<close>, which depends on the type
  of the column \<open>ts\<close> and is NULL where the value is no number, and the calendar fields
  of a timestamp, which depend on the time zone of the session. They are parameters
  of the model; for a column \<open>ts\<close> of longs the second one is \<open>long_to_timestamp\<close>,
  defined below from the floating-point operations it consists of.
\<close>

type_synonym timestamp = int

record 't builtins =
  cast_int :: "string \<Rightarrow> int option"
  to_timestamp :: "'t \<Rightarrow> timestamp option"
  F_hour :: "timestamp \<Rightarrow> int"
  F_dayofmonth :: "timestamp \<Rightarrow> int"
  F_weekofyear :: "timestamp \<Rightarrow> int"
  F_month :: "timestamp \<Rightarrow> int"
  F_year :: "timestamp \<Rightarrow> int"
  F_dayofweek :: "timestamp \<Rightarrow> int"

text \<open>\<open>CAST(v AS int)\<close> of a nullable string column.\<close>

definition sql_cast_int :: "'t builtins \<Rightarrow> string option \<Rightarrow> int option" where
  "sql_cast_int B v = (case v of None \<Rightarrow> None | Some s \<Rightarrow> cast_int B s)"

subsection \<open>Log data: \<open>process_log_data\<close>\<close>

text \<open>A row of the log data as read from JSON (the columns the program uses).\<close>

record 't logs_rec =
  ts :: "'t option"
  page :: "string option"
  userId :: "string option"
  firstName :: "string option"
  lastName :: "string option"
  gender :: "string option"
  level :: "string option"
  song :: "string option"
  artist :: "string option"
  sessionId :: "int option"
  location :: "string option"
  userAgent :: "string option"

text \<open>
  A row of the view \<open>logs\<close>: the columns above and \<open>start_time\<close>. (The \<open>select\<close> drops
  \<open>page\<close>, which is \<open>NextSong\<close> on every row that passed the filter and is not read
  again; the record keeps the field.)
\<close>

record 't logs_row = "'t logs_rec" +
  start_time :: "timestamp option"

text \<open>\<open>logs.withColumn('start_time', (F.col('ts') / 1000.0).cast(TimestampType()))\<close>\<close>

definition add_start_time :: "'t builtins \<Rightarrow> 't logs_rec \<Rightarrow> 't logs_row" where
  "add_start_time B a =
     \<lparr>ts = ts a, page = page a, userId = userId a, firstName = firstName a,
      lastName = lastName a, gender = gender a, level = level a, song = song a,
      artist = artist a, sessionId = sessionId a, location = location a,
      userAgent = userAgent a,
      start_time = (case ts a of None \<Rightarrow> None | Some t \<Rightarrow> to_timestamp B t)\<rparr>"

text \<open>\<open>logs.where(logs.page == 'NextSong').select(...)\<close>, registered as the view \<open>logs\<close>.\<close>

definition logs_view :: "'t builtins \<Rightarrow> 't logs_rec list \<Rightarrow> 't logs_row list" where
  "logs_view B logs = filter (\<lambda>a. sql_eq (page a) (Some ''NextSong'')) (map (add_start_time B) logs)"

record users_row =
  u_user_id :: "int option"
  u_first_name :: "string option"
  u_last_name :: "string option"
  u_gender :: "string option"
  u_level :: "string option"

text \<open>The \<open>SELECT\<close> list of the users query, for a row \<open>A\<close> of \<open>logs\<close>.\<close>

definition users_select :: "'t builtins \<Rightarrow> 't logs_row \<Rightarrow> users_row" where
  "users_select B a =
     \<lparr>u_user_id = sql_cast_int B (userId a), u_first_name = firstName a,
      u_last_name = lastName a, u_gender = gender a, u_level = level a\<rparr>"

text \<open>
  \<open>SELECT DISTINCT ... FROM logs AS A INNER JOIN (SELECT userId, MAX(ts) AS tsLast FROM
  logs GROUP BY userId) AS B ON A.userId = B.userId AND A.ts = B.tsLast WHERE A.userId
  IS NOT NULL\<close>
\<close>

definition users_table :: "('t::linorder) builtins \<Rightarrow> 't logs_row list \<Rightarrow> users_row list" where
  "users_table B logs =
     (let last = map (\<lambda>(u, g). (u, sql_max (map ts g))) (group_by userId logs);
          joined = inner_join (\<lambda>a (u, tsLast). sql_eq (userId a) u \<and> sql_eq (ts a) tsLast) logs last;
          kept = filter (\<lambda>(a, b). userId a \<noteq> None) joined
      in remdups (map (\<lambda>(a, b). users_select B a) kept))"

record time_row =
  t_start_time :: "timestamp option"
  t_hour :: "int option"
  t_day :: "int option"
  t_week :: "int option"
  t_month :: "int option"
  t_year :: "int option"
  t_weekday :: "int option"

text \<open>The six \<open>withColumn\<close> calls and the \<open>select\<close> of the time table, for one value of \<open>start_time\<close>.\<close>

definition time_select :: "'t builtins \<Rightarrow> timestamp option \<Rightarrow> time_row" where
  "time_select B s =
     \<lparr>t_start_time = s,
      t_hour = map_option (F_hour B) s,
      t_day = map_option (F_dayofmonth B) s,
      t_week = map_option (F_weekofyear B) s,
      t_month = map_option (F_month B) s,
      t_year = map_option (F_year B) s,
      t_weekday = map_option (F_dayofweek B) s\<rparr>"

text \<open>\<open>dropDuplicates()\<close> without arguments compares whole rows.\<close>

definition time_table :: "'t builtins \<Rightarrow> 't logs_row list \<Rightarrow> time_row list" where
  "time_table B logs = remdups (map (\<lambda>a. time_select B (start_time a)) logs)"

text \<open>The result of the songplays query, and the table once \<open>songplay_id\<close> is added.\<close>

record songplays_sel =
  sp_start_time :: "timestamp option"
  sp_user_id :: "int option"
  sp_level :: "string option"
  sp_song_id :: "string option"
  sp_artist_id :: "string option"
  sp_session_id :: "int option"
  sp_location :: "string option"
  sp_user_agent :: "string option"
  sp_year :: "int option"
  sp_month :: "int option"

record songplays_row = songplays_sel +
  songplay_id :: int

definition songplays_select :: "'t builtins \<Rightarrow> 't logs_row \<Rightarrow> 'd songs_rec \<Rightarrow> songplays_sel" where
  "songplays_select B a b =
     \<lparr>sp_start_time = start_time a,
      sp_user_id = sql_cast_int B (userId a),
      sp_level = level a,
      sp_song_id = song_id b,
      sp_artist_id = artist_id b,
      sp_session_id = sessionId a,
      sp_location = location a,
      sp_user_agent = userAgent a,
      sp_year = map_option (F_year B) (start_time a),
      sp_month = map_option (F_month B) (start_time a)\<rparr>"

text \<open>\<open>ON A.song = B.title AND A.artist = B.artist_name\<close>\<close>

definition songplays_on :: "'t logs_row \<Rightarrow> 'd songs_rec \<Rightarrow> bool" where
  "songplays_on a b = (sql_eq (song a) (title b) \<and> sql_eq (artist a) (artist_name b))"

text \<open>\<open>SELECT ... FROM logs AS A INNER JOIN songs AS B ON ...\<close>: \<open>songs\<close> is the view of the
  song data as read, not the songs table.\<close>

definition songplays_query :: "'t builtins \<Rightarrow> 't logs_row list \<Rightarrow> 'd songs_rec list \<Rightarrow> songplays_sel list" where
  "songplays_query B logs songs = map (\<lambda>(a, b). songplays_select B a b) (inner_join songplays_on logs songs)"

definition with_songplay_id :: "int \<Rightarrow> songplays_sel \<Rightarrow> songplays_row" where
  "with_songplay_id i r =
     \<lparr>sp_start_time = sp_start_time r, sp_user_id = sp_user_id r, sp_level = sp_level r,
      sp_song_id = sp_song_id r, sp_artist_id = sp_artist_id r,
      sp_session_id = sp_session_id r, sp_location = sp_location r,
      sp_user_agent = sp_user_agent r, sp_year = sp_year r, sp_month = sp_month r,
      songplay_id = i\<rparr>"

text \<open>\<open>songplays_table.withColumn('songplay_id', F.row_number().over(Window.orderBy('start_time')))\<close>\<close>

definition songplays_table :: "'t builtins \<Rightarrow> 't logs_row list \<Rightarrow> 'd songs_rec list \<Rightarrow> songplays_row list" where
  "songplays_table B logs songs =
     map (\<lambda>(i, r). with_songplay_id i r) (row_number_over sp_start_time (songplays_query B logs songs))"

subsection \<open>The run: \<open>main\<close>\<close>

text \<open>
  What \<open>spark.read.json\<close> returns: the columns, which are the keys found in the records of
  the files, and the rows, with NULL where a record lacks a key. A data set that was
  read has a record, and no two of its columns have the same name up to the case of
  the letters. Spark resolves the columns an expression or a query names when the
  expression is built, and raises when one is missing; the tables themselves are
  computed when written.
\<close>

record 'r frame =
  columns :: "string list"
  rows :: "'r list"

datatype error = AnalysisException string | AttributeError string

datatype 'd table =
  Songs "'d songs_row list"
| Artists "'d artists_row list"
| Users "users_row list"
| Time "time_row list"
| Songplays "songplays_row list"

text \<open>
  The tables the run has handed to the writer so far, with their paths under the output
  path, in the order of writing. What the writer does with a table (the partitions,
  the replacement of an older table, a failure of the store) is outside the model.
\<close>

type_synonym 'd writes = "(string \<times> 'd table) list"

definition parquet :: "string \<Rightarrow> 'd table \<Rightarrow> 'd writes \<Rightarrow> 'd writes" where
  "parquet path t w = w @ [(path, t)]"

text \<open>
  Spark resolves a column name without regard to the case of its letters (the session
  default): the frame has the column \<open>c\<close> when one of its columns is \<open>c\<close> up to case.
\<close>

definition lower_char :: "char \<Rightarrow> char" where
  "lower_char c = (if CHR ''A'' \<le> c \<and> c \<le> CHR ''Z'' then char_of (of_char c + (32::nat)) else c)"

definition has_column :: "string list \<Rightarrow> string \<Rightarrow> bool" where
  "has_column cols c = list_ex (\<lambda>x. map lower_char x = map lower_char c) cols"

text \<open>The first of the needed columns that the frame does not have.\<close>

definition unresolved :: "string list \<Rightarrow> string list \<Rightarrow> string option" where
  "unresolved cols needed =
     (case filter (\<lambda>c. \<not> has_column cols c) needed of [] \<Rightarrow> None | c # _ \<Rightarrow> Some c)"

definition process_song_data :: "('d::linorder) songs_rec frame \<Rightarrow> 'd writes \<Rightarrow> error option \<times> 'd writes" where
  "process_song_data songs w =
     (case unresolved (columns songs) [''song_id'', ''title'', ''artist_id'', ''year'', ''duration''] of
        Some c \<Rightarrow> (Some (AnalysisException c), w)
      | None \<Rightarrow>
         (let w1 = parquet ''songs/songs.parquet'' (Songs (songs_table (rows songs))) w in
          case unresolved (columns songs)
                 [''artist_id'', ''artist_name'', ''artist_location'', ''artist_latitude'', ''artist_longitude''] of
            Some c \<Rightarrow> (Some (AnalysisException c), w1)
          | None \<Rightarrow> (None, parquet ''artists/artists.parquet'' (Artists (artists_table (rows songs))) w1)))"

text \<open>
  \<open>songs\<close> is the temporary view that \<open>process_song_data\<close> registered in the session.
  \<open>F.col('ts')\<close> and the \<open>select\<close> raise an analysis error on a missing column. The
  attribute \<open>logs.page\<close> is looked up by Python among the names of the columns as they
  are spelled, and raises an attribute error when \<open>page\<close> is not one of them.
\<close>

definition process_log_data ::
  "('t::linorder) builtins \<Rightarrow> 't logs_rec frame \<Rightarrow> ('d::linorder) songs_rec frame \<Rightarrow> 'd writes
     \<Rightarrow> error option \<times> 'd writes" where
  "process_log_data B logs songs w =
     (if \<not> has_column (columns logs) ''ts'' then (Some (AnalysisException ''ts''), w)
      else if ''page'' \<notin> set (columns logs) then (Some (AttributeError ''page''), w)
      else case unresolved (columns logs)
                  [''ts'', ''userId'', ''firstName'', ''lastName'', ''gender'', ''level'',
                   ''song'', ''artist'', ''sessionId'', ''location'', ''userAgent''] of
        Some c \<Rightarrow> (Some (AnalysisException c), w)
      | None \<Rightarrow>
         (let view = logs_view B (rows logs);
              w1 = parquet ''users/users.parquet'' (Users (users_table B view)) w;
              w2 = parquet ''time/time.parquet'' (Time (time_table B view)) w1
          in case unresolved (columns songs) [''song_id'', ''artist_id'', ''title'', ''artist_name''] of
               Some c \<Rightarrow> (Some (AnalysisException c), w2)
             | None \<Rightarrow>
                (None, parquet ''songplays/songplays.parquet''
                         (Songplays (songplays_table B view (rows songs))) w2)))"

definition main ::
  "('t::linorder) builtins \<Rightarrow> ('d::linorder) songs_rec frame \<Rightarrow> 't logs_rec frame
     \<Rightarrow> error option \<times> 'd writes" where
  "main B songs logs =
     (case process_song_data songs [] of
        (Some e, w) \<Rightarrow> (Some e, w)
      | (None, w) \<Rightarrow> process_log_data B logs songs w)"

text \<open>The columns that the program names: those of the song data and those of the log data.\<close>

definition song_columns :: "string list" where
  "song_columns = [''song_id'', ''title'', ''artist_id'', ''artist_name'', ''artist_location'',
                   ''artist_latitude'', ''artist_longitude'', ''year'', ''duration'']"

definition log_columns :: "string list" where
  "log_columns = [''ts'', ''page'', ''userId'', ''firstName'', ''lastName'', ''gender'', ''level'',
                  ''song'', ''artist'', ''sessionId'', ''location'', ''userAgent'']"

subsection \<open>The timestamp of a long: \<open>(ts / 1000.0).cast(TimestampType())\<close>\<close>

text \<open>
  For a column \<open>ts\<close> of longs Spark converts the long to a double, divides it by the
  double 1000.0, multiplies the quotient by the double 1000000 and truncates the
  product to a long, the count of microseconds (a product beyond the range of a long
  gives the nearest end of the range). Every operation on doubles returns the double
  nearest to the exact result, the one with the even mantissa when two are equally
  near.

  A double other than zero is written here as a pair \<open>(m, e)\<close> for the number
  \<open>m * 2 ^ e\<close>, with \<open>2 ^ 52 \<le> \<bar>m\<bar> < 2 ^ 53\<close>; zero is \<open>(0, 0)\<close>. The numbers that arise
  from a long lie between \<open>1 / 1000\<close> and \<open>2 ^ 63 * 1000\<close> in absolute value, far from the
  least and the greatest double, so that neither subnormal numbers nor infinities
  need a place in the model.
\<close>

type_synonym double = "int \<times> int"

text \<open>The integer nearest to \<open>a / b\<close>, the even one of two equally near (\<open>0 \<le> a\<close>, \<open>0 < b\<close>).\<close>

definition rne :: "int \<Rightarrow> int \<Rightarrow> int" where
  "rne a b = (let q = a div b; r = a mod b
              in if 2 * r < b \<or> (2 * r = b \<and> even q) then q else q + 1)"

text \<open>The same for \<open>a / (b * 2 ^ e)\<close>, where \<open>e\<close> may be negative.\<close>

definition scaled_rne :: "int \<Rightarrow> int \<Rightarrow> int \<Rightarrow> int" where
  "scaled_rne a b e = (if 0 \<le> e then rne a (b * 2 ^ nat e) else rne (a * 2 ^ nat (- e)) b)"

text \<open>\<open>2 ^ k \<le> a / b\<close>, for \<open>0 < b\<close>.\<close>

definition pow2_le :: "int \<Rightarrow> int \<Rightarrow> int \<Rightarrow> bool" where
  "pow2_le k a b = (if 0 \<le> k then b * 2 ^ nat k \<le> a else b \<le> a * 2 ^ nat (- k))"

text \<open>
  The exponent \<open>e\<close> with \<open>2 ^ (e + 52) \<le> a / b < 2 ^ (e + 53)\<close>, for \<open>0 < a\<close> and \<open>0 < b\<close>: the
  numbers of binary digits of \<open>a\<close> and \<open>b\<close> leave two candidates.
\<close>

definition binade :: "int \<Rightarrow> int \<Rightarrow> int" where
  "binade a b = (let k = bitlen a - bitlen b in (if pow2_le k a b then k else k - 1) - 52)"

text \<open>The double nearest to \<open>a / b\<close>, for \<open>0 < b\<close>.\<close>

definition to_double :: "int \<Rightarrow> int \<Rightarrow> double" where
  "to_double a b =
     (if a = 0 then (0, 0)
      else let e = binade \<bar>a\<bar> b; m = scaled_rne \<bar>a\<bar> b e
           in if m = 2 ^ 53 then (sgn a * 2 ^ 52, e + 1) else (sgn a * m, e))"

text \<open>Division and multiplication of a double by a positive integer that is itself a double.\<close>

definition double_div :: "double \<Rightarrow> int \<Rightarrow> double" where
  "double_div x n = (case x of (m, e) \<Rightarrow>
     if 0 \<le> e then to_double (m * 2 ^ nat e) n else to_double m (n * 2 ^ nat (- e)))"

definition double_mult :: "double \<Rightarrow> int \<Rightarrow> double" where
  "double_mult x n = (case x of (m, e) \<Rightarrow>
     if 0 \<le> e then to_double (m * n * 2 ^ nat e) 1 else to_double (m * n) (2 ^ nat (- e)))"

text \<open>The double cut off towards zero, within the range of a long.\<close>

definition double_to_long :: "double \<Rightarrow> int" where
  "double_to_long x = (case x of (m, e) \<Rightarrow>
     let t = (if 0 \<le> e then m * 2 ^ nat e else sgn m * (\<bar>m\<bar> div 2 ^ nat (- e)))
     in max (- (2 ^ 63)) (min (2 ^ 63 - 1) t))"

definition spark_timestamp :: "int \<Rightarrow> timestamp" where
  "spark_timestamp t = double_to_long (double_mult (double_div (to_double t 1) 1000) 1000000)"

definition long_to_timestamp :: "int \<Rightarrow> timestamp option" where
  "long_to_timestamp t = Some (spark_timestamp t)"

subsection \<open>Concrete library functions for examples\<close>

text \<open>
  One choice of the library functions, used to evaluate the program on examples: the
  cast of a string to \<open>int\<close> as Spark 3 has it, the conversion of the column \<open>ts\<close>, and
  the calendar of the time zone UTC.

  The cast removes the bytes up to 32 from both ends of the string and reads an
  optional sign, digits, and an optional point followed by digits, which are
  dropped; it is NULL on every other string, the empty string among them, and on a
  number outside 32 bits.
\<close>

definition digit :: "char \<Rightarrow> int option" where
  "digit c = (if CHR ''0'' \<le> c \<and> c \<le> CHR ''9'' then Some (of_char c - 48) else None)"

fun digits :: "int \<Rightarrow> string \<Rightarrow> int option" where
  "digits n [] = Some n"
| "digits n (c # cs) = (case digit c of None \<Rightarrow> None | Some d \<Rightarrow> digits (10 * n + d) cs)"

definition is_space :: "char \<Rightarrow> bool" where
  "is_space c = (of_char c \<le> (32::nat))"

definition trim :: "string \<Rightarrow> string" where
  "trim s = rev (dropWhile is_space (rev (dropWhile is_space s)))"

definition decimal_int :: "string \<Rightarrow> int option" where
  "decimal_int s =
     (case trim s of
        [] \<Rightarrow> None
      | c # cs \<Rightarrow>
         (let signed = (c = CHR ''-'' \<or> c = CHR ''+'');
              body = (if signed then cs else c # cs);
              whole = takeWhile (\<lambda>x. x \<noteq> CHR ''.'') body;
              fraction = drop (Suc (length whole)) body
          in if signed \<and> cs = [] then None
             else case digits 0 whole of
                    None \<Rightarrow> None
                  | Some n \<Rightarrow>
                     (case digits 0 fraction of
                        None \<Rightarrow> None
                      | Some f \<Rightarrow>
                         (let v = (if c = CHR ''-'' then - n else n)
                          in if - 2147483648 \<le> v \<and> v \<le> 2147483647 then Some v else None))))"

text \<open>
  The conversion of a column \<open>ts\<close> of strings, on the strings the examples use: a string
  of decimal digits is converted as the long it denotes is, and a string with another
  character is NULL. (Spark reads signs, fractions and exponents as well.)
\<close>

definition text_to_timestamp :: "string \<Rightarrow> timestamp option" where
  "text_to_timestamp s =
     (if s = [] then None
      else case digits 0 s of None \<Rightarrow> None | Some n \<Rightarrow> Some (spark_timestamp n))"

text \<open>Year, month and day of a day number (days since 1 January 1970).\<close>

definition civil :: "int \<Rightarrow> int \<times> int \<times> int" where
  "civil d =
     (let z = d + 719468;
          era = z div 146097;
          doe = z mod 146097;
          yoe = (doe - doe div 1460 + doe div 36524 - doe div 146096) div 365;
          doy = doe - (365 * yoe + yoe div 4 - yoe div 100);
          mp = (5 * doy + 2) div 153;
          m = (if mp < 10 then mp + 3 else mp - 9)
      in (yoe + era * 400 + (if m \<le> 2 then 1 else 0), m, doy - (153 * mp + 2) div 5 + 1))"

text \<open>The day number of 1 January of a year.\<close>

definition jan1 :: "int \<Rightarrow> int" where
  "jan1 y = (let y1 = y - 1; yoe = y1 mod 400
             in (y1 div 400) * 146097 + yoe * 365 + yoe div 4 - yoe div 100 + 306 - 719468)"

definition utc_day :: "timestamp \<Rightarrow> int" where
  "utc_day t = t div 86400000000"

text \<open>The ISO week: the week of the Thursday of the same week, counted in that Thursday's year.\<close>

definition utc_weekofyear :: "timestamp \<Rightarrow> int" where
  "utc_weekofyear t =
     (let d = utc_day t; thursday = d - (d + 3) mod 7 + 3
      in (thursday - jan1 (fst (civil thursday))) div 7 + 1)"

definition utc_with :: "('t \<Rightarrow> timestamp option) \<Rightarrow> 't builtins" where
  "utc_with conv =
     \<lparr>cast_int = decimal_int,
      to_timestamp = conv,
      F_hour = (\<lambda>t. t div 3600000000 mod 24),
      F_dayofmonth = (\<lambda>t. snd (snd (civil (utc_day t)))),
      F_weekofyear = utc_weekofyear,
      F_month = (\<lambda>t. fst (snd (civil (utc_day t)))),
      F_year = (\<lambda>t. fst (civil (utc_day t))),
      F_dayofweek = (\<lambda>t. (utc_day t + 4) mod 7 + 1)\<rparr>"

text \<open>The library functions for log data whose column \<open>ts\<close> holds longs, and strings.\<close>

definition utc :: "int builtins" where
  "utc = utc_with long_to_timestamp"

definition utc_text :: "string builtins" where
  "utc_text = utc_with text_to_timestamp"

text \<open>Records for examples: a song play with the given timestamp, user id, level, song and
  artist, and a record of the song data with the given song id, title, artist id and artist name.\<close>

definition play :: "'t \<Rightarrow> string \<Rightarrow> string \<Rightarrow> string option \<Rightarrow> string option \<Rightarrow> 't logs_rec" where
  "play t u lv sg ar =
     \<lparr>ts = Some t, page = Some ''NextSong'', userId = Some u, firstName = Some ''Ann'',
      lastName = Some ''Lee'', gender = Some ''F'', level = Some lv, song = sg, artist = ar,
      sessionId = Some 1, location = None, userAgent = None\<rparr>"

definition track :: "string option \<Rightarrow> string option \<Rightarrow> string option \<Rightarrow> string option \<Rightarrow> int songs_rec" where
  "track i t a n =
     \<lparr>song_id = i, title = t, artist_id = a, artist_name = n, artist_location = None,
      artist_latitude = None, artist_longitude = None, year = Some 2008, duration = Some 261\<rparr>"

subsection \<open>Notions of the specification\<close>

text \<open>
  An event of the view \<open>logs\<close> is a latest event of its user when its user id and its
  timestamp are not NULL and no event of the same user id has a later timestamp
  (\<open>None\<close> is below every timestamp in \<open>Option_ord\<close>).
\<close>

definition latest_of_user :: "('t::linorder) logs_row list \<Rightarrow> 't logs_row \<Rightarrow> bool" where
  "latest_of_user logs a =
     (userId a \<noteq> None \<and> ts a \<noteq> None \<and> list_all (\<lambda>b. userId b = userId a \<longrightarrow> ts b \<le> ts a) logs)"

text \<open>
  The match the specification asks of the join: the event's song and artist are not NULL
  and equal, as strings, the record's title and artist name.
\<close>

definition exact_match :: "'t logs_row \<Rightarrow> 'd songs_rec \<Rightarrow> bool" where
  "exact_match a b = (song a \<noteq> None \<and> song a = title b \<and> artist a \<noteq> None \<and> artist a = artist_name b)"

text \<open>The rows of the users table that come from the latest events of the user id \<open>u\<close>.\<close>

definition user_rows :: "('t::linorder) builtins \<Rightarrow> 't logs_row list \<Rightarrow> string option \<Rightarrow> users_row list" where
  "user_rows B logs u =
     filter (\<lambda>r. list_ex (\<lambda>b. latest_of_user logs b \<and> userId b = u \<and> r = users_select B b) logs)
       (users_table B logs)"

section \<open>Properties\<close>

lemma fold_min_least: "fold min xs (x::'a::linorder) \<le> x \<and> (\<forall>y\<in>set xs. fold min xs x \<le> y)"
proof (induction xs arbitrary: x)
  case Nil
  show ?case by simp
next
  case (Cons a xs)
  have "fold min xs (min a x) \<le> min a x" using Cons.IH by blast
  then show ?case using Cons.IH [of "min a x"] by (auto simp: min_le_iff_disj)
qed

lemma fold_min_mem: "fold min xs (x::'a::linorder) \<in> insert x (set xs)"
proof (induction xs arbitrary: x)
  case Nil
  show ?case by simp
next
  case (Cons a xs)
  show ?case using Cons.IH [of "min a x"] by (auto simp: min_def split: if_splits)
qed

lemma set_non_null: "set (non_null vs) = {x. Some x \<in> set vs}"
  by (force simp: non_null_def image_iff)

lemma sql_min_is_min: "min_non_null (sql_min vs) vs"
proof (cases "non_null vs")
  case Nil
  then have "{x. Some x \<in> set vs} = {}" using set_non_null [of vs] by simp
  then have "\<forall>v\<in>set vs. v = None" by (metis (mono_tags, lifting) empty_iff mem_Collect_eq not_None_eq)
  with Nil show ?thesis by (simp add: sql_min_def min_non_null_def list_all_iff)
next
  case (Cons x xs)
  let ?m = "fold min xs x"
  have mem: "?m \<in> set (non_null vs)" using fold_min_mem [of xs x] Cons by simp
  have least: "\<forall>y\<in>set (non_null vs). ?m \<le> y" using fold_min_least [of xs x] Cons by simp
  have "Some ?m \<in> set vs" using mem by (simp add: set_non_null)
  moreover have "\<forall>v\<in>set vs. case v of None \<Rightarrow> True | Some y \<Rightarrow> ?m \<le> y"
    using least by (auto simp: set_non_null split: option.splits)
  ultimately show ?thesis using Cons by (simp add: sql_min_def min_non_null_def list_all_iff)
qed

subsection \<open>Grouping and joining\<close>


lemma set_group_by: "set (group_by key rs) = (\<lambda>k. (k, filter (\<lambda>r. key r = k) rs)) ` key ` set rs"
  by (simp add: group_by_def)

lemma map_fst_group_by: "map fst (group_by key rs) = remdups (map key rs)"
  by (simp add: group_by_def comp_def)

lemma songs_table_ids: "map s_song_id (songs_table songs) = remdups (map song_id songs)"
  by (simp add: songs_table_def group_by_def comp_def)

lemma artists_table_ids: "map a_artist_id (artists_table songs) = remdups (map artist_id songs)"
  by (simp add: artists_table_def group_by_def comp_def)

lemma songs_table_row:
  assumes "r \<in> set (songs_table songs)"
  defines "g \<equiv> filter (\<lambda>x. song_id x = s_song_id r) songs"
  shows "g \<noteq> [] \<and> s_title r = sql_min (map title g) \<and> s_artist_id r = sql_min (map artist_id g)
         \<and> s_year r = sql_min (map year g) \<and> s_duration r = sql_min (map duration g)"
proof -
  from assms(1) obtain x where x: "x \<in> set songs"
    and r: "r = \<lparr>s_song_id = song_id x,
             s_title = sql_min (map title (filter (\<lambda>y. song_id y = song_id x) songs)),
             s_artist_id = sql_min (map artist_id (filter (\<lambda>y. song_id y = song_id x) songs)),
             s_year = sql_min (map year (filter (\<lambda>y. song_id y = song_id x) songs)),
             s_duration = sql_min (map duration (filter (\<lambda>y. song_id y = song_id x) songs))\<rparr>"
    by (auto simp: songs_table_def set_group_by)
  have "x \<in> set g" using x r by (simp add: g_def)
  then have "g \<noteq> []" by auto
  then show ?thesis using r by (simp add: g_def)
qed


lemma artists_table_row:
  assumes "r \<in> set (artists_table songs)"
  defines "g \<equiv> filter (\<lambda>x. artist_id x = a_artist_id r) songs"
  shows "g \<noteq> [] \<and> a_name r = sql_min (map artist_name g) \<and> a_location r = sql_min (map artist_location g)
         \<and> a_latitude r = sql_min (map artist_latitude g) \<and> a_longitude r = sql_min (map artist_longitude g)"
proof -
  from assms(1) obtain x where x: "x \<in> set songs"
    and r: "r = \<lparr>a_artist_id = artist_id x,
             a_name = sql_min (map artist_name (filter (\<lambda>y. artist_id y = artist_id x) songs)),
             a_location = sql_min (map artist_location (filter (\<lambda>y. artist_id y = artist_id x) songs)),
             a_latitude = sql_min (map artist_latitude (filter (\<lambda>y. artist_id y = artist_id x) songs)),
             a_longitude = sql_min (map artist_longitude (filter (\<lambda>y. artist_id y = artist_id x) songs))\<rparr>"
    by (auto simp: artists_table_def set_group_by)
  have "x \<in> set g" using x r by (simp add: g_def)
  then have "g \<noteq> []" by auto
  then show ?thesis using r by (simp add: g_def)
qed

subsection \<open>The latest event of a user\<close>
lemma fold_max_greatest: "x \<le> fold max xs (x::'a::linorder) \<and> (\<forall>y\<in>set xs. y \<le> fold max xs x)"
proof (induction xs arbitrary: x)
  case Nil
  show ?case by simp
next
  case (Cons a xs)
  have "max a x \<le> fold max xs (max a x)" using Cons.IH by blast
  then show ?case using Cons.IH [of "max a x"] by (auto simp: le_max_iff_disj)
qed

lemma fold_max_mem: "fold max xs (x::'a::linorder) \<in> insert x (set xs)"
proof (induction xs arbitrary: x)
  case Nil
  show ?case by simp
next
  case (Cons a xs)
  show ?case using Cons.IH [of "max a x"] by (auto simp: max_def split: if_splits)
qed

lemma sql_max_None: "sql_max vs = None \<longleftrightarrow> (\<forall>v\<in>set vs. v = None)"
proof -
  have "non_null vs = [] \<longleftrightarrow> (\<forall>v\<in>set vs. v = None)"
    by (auto simp: non_null_def filter_empty_conv)
  then show ?thesis by (cases "non_null vs") (auto simp: sql_max_def)
qed

lemma sql_max_Some:
  assumes "sql_max vs = Some m"
  shows "Some m \<in> set vs \<and> (\<forall>v\<in>set vs. v \<le> Some m)"
proof -
  from assms obtain x xs where nn: "non_null vs = x # xs" and m: "m = fold max xs x"
    by (auto simp: sql_max_def split: list.splits)
  have "m \<in> set (non_null vs)" using fold_max_mem [of xs x] nn m by simp
  then have mem: "Some m \<in> set vs" by (simp add: set_non_null)
  have le: "\<forall>y\<in>set (non_null vs). y \<le> m" using fold_max_greatest [of x xs] nn m by simp
  have "\<forall>v\<in>set vs. v \<le> Some m"
  proof
    fix v
    assume v: "v \<in> set vs"
    show "v \<le> Some m"
    proof (cases v)
      case None
      then show ?thesis by simp
    next
      case (Some y)
      then have "y \<in> set (non_null vs)" using v by (simp add: set_non_null)
      then show ?thesis using le Some by simp
    qed
  qed
  with mem show ?thesis by simp
qed

lemma sql_eq_sql_max:
  assumes "x \<in> set vs"
  shows "sql_eq x (sql_max vs) \<longleftrightarrow> (x \<noteq> None \<and> (\<forall>v\<in>set vs. v \<le> x))"
proof (cases "sql_max vs")
  case None
  then have "x = None" using assms by (simp add: sql_max_None)
  then show ?thesis by (simp add: sql_eq_def)
next
  case (Some m)
  note mx = sql_max_Some [OF Some]
  show ?thesis
  proof
    assume "sql_eq x (sql_max vs)"
    then have "x = Some m" using Some by (simp add: sql_eq_def split: option.splits)
    then show "x \<noteq> None \<and> (\<forall>v\<in>set vs. v \<le> x)" using mx by simp
  next
    assume r: "x \<noteq> None \<and> (\<forall>v\<in>set vs. v \<le> x)"
    then have "Some m \<le> x" using mx by blast
    moreover have "x \<le> Some m" using mx assms by blast
    ultimately have "x = Some m" by simp
    then show "sql_eq x (sql_max vs)" using Some by (simp add: sql_eq_def)
  qed
qed

lemma set_inner_join: "set (inner_join cond as bs) = {(a, b). a \<in> set as \<and> b \<in> set bs \<and> cond a b}"
  by (auto simp: inner_join_def)

lemma users_join_cond:
  assumes "a \<in> set logs"
  shows "(userId a \<noteq> None \<and> (\<exists>p\<in>set (map (\<lambda>(u, g). (u, sql_max (map ts g))) (group_by userId logs)).
            case p of (u, tsLast) \<Rightarrow> sql_eq (userId a) u \<and> sql_eq (ts a) tsLast))
         \<longleftrightarrow> latest_of_user logs a"
proof -
  let ?g = "filter (\<lambda>b. userId b = userId a) logs"
  have in_g: "ts a \<in> set (map ts ?g)" using assms by simp
  have mx: "sql_eq (ts a) (sql_max (map ts ?g)) \<longleftrightarrow> (ts a \<noteq> None \<and> (\<forall>v\<in>set (map ts ?g). v \<le> ts a))"
    by (rule sql_eq_sql_max [OF in_g])
  have "(\<exists>p\<in>set (map (\<lambda>(u, g). (u, sql_max (map ts g))) (group_by userId logs)).
            case p of (u, tsLast) \<Rightarrow> sql_eq (userId a) u \<and> sql_eq (ts a) tsLast)
        \<longleftrightarrow> (\<exists>b\<in>set logs. sql_eq (userId a) (userId b)
               \<and> sql_eq (ts a) (sql_max (map ts (filter (\<lambda>c. userId c = userId b) logs))))"
    by (simp add: group_by_def comp_def)
  also have "\<dots> \<longleftrightarrow> (userId a \<noteq> None \<and> sql_eq (ts a) (sql_max (map ts ?g)))"
  proof
    assume "\<exists>b\<in>set logs. sql_eq (userId a) (userId b)
        \<and> sql_eq (ts a) (sql_max (map ts (filter (\<lambda>c. userId c = userId b) logs)))"
    then obtain b where "b \<in> set logs" and "sql_eq (userId a) (userId b)"
      and m: "sql_eq (ts a) (sql_max (map ts (filter (\<lambda>c. userId c = userId b) logs)))" by auto
    then have "userId a \<noteq> None \<and> userId b = userId a"
      by (auto simp: sql_eq_def split: option.splits)
    then show "userId a \<noteq> None \<and> sql_eq (ts a) (sql_max (map ts ?g))" using m by simp
  next
    assume r: "userId a \<noteq> None \<and> sql_eq (ts a) (sql_max (map ts ?g))"
    then have "sql_eq (userId a) (userId a)" by (auto simp: sql_eq_def)
    then show "\<exists>b\<in>set logs. sql_eq (userId a) (userId b)
        \<and> sql_eq (ts a) (sql_max (map ts (filter (\<lambda>c. userId c = userId b) logs)))"
      using r assms by blast
  qed
  finally show ?thesis using mx by (auto simp: latest_of_user_def list_all_iff)
qed

lemma set_users_table:
  "set (users_table B logs) = users_select B ` {a \<in> set logs. latest_of_user logs a}"
proof -
  let ?last = "map (\<lambda>(u, g). (u, sql_max (map ts g))) (group_by userId logs)"
  let ?cond = "\<lambda>a (u, tsLast). sql_eq (userId a) u \<and> sql_eq (ts a) tsLast"
  have "set (users_table B logs)
        = users_select B ` fst ` {p \<in> set (inner_join ?cond logs ?last). userId (fst p) \<noteq> None}"
    by (simp add: users_table_def Let_def image_image case_prod_unfold)
  also have "fst ` {p \<in> set (inner_join ?cond logs ?last). userId (fst p) \<noteq> None}
        = {a \<in> set logs. userId a \<noteq> None \<and> (\<exists>p\<in>set ?last. ?cond a p)}"
    by (force simp: set_inner_join image_iff)
  also have "\<dots> = {a \<in> set logs. latest_of_user logs a}"
    using users_join_cond by blast
  finally show ?thesis .
qed

lemma distinct_users_table: "distinct (users_table B logs)"
  by (simp add: users_table_def Let_def)


subsection \<open>The time table\<close>


lemma t_start_time_select: "t_start_time (time_select B s) = s"
  by (simp add: time_select_def)

lemma time_table_rows: "r \<in> set (time_table B logs) \<Longrightarrow> r = time_select B (t_start_time r)"
  by (auto simp: time_table_def t_start_time_select)

lemma distinct_time_table: "distinct (map t_start_time (time_table B logs))"
proof -
  have "inj_on t_start_time (set (time_table B logs))"
  proof (rule inj_onI)
    fix r r'
    assume "r \<in> set (time_table B logs)" "r' \<in> set (time_table B logs)" "t_start_time r = t_start_time r'"
    then show "r = r'" using time_table_rows [of r B logs] time_table_rows [of r' B logs] by simp
  qed
  moreover have "distinct (time_table B logs)" by (simp add: time_table_def)
  ultimately show ?thesis by (simp add: distinct_map)
qed

subsection \<open>Row numbers\<close>

lemma length_songplays_table: "length (songplays_table B logs songs) = length (songplays_query B logs songs)"
  by (simp add: songplays_table_def row_number_over_def)

lemma songplay_id_with: "songplay_id (with_songplay_id i r) = i"
  by (simp add: with_songplay_id_def)

lemma sp_start_time_with: "sp_start_time (with_songplay_id i r) = sp_start_time r"
  by (simp add: with_songplay_id_def)

lemma truncate_with: "songplays_sel.truncate (with_songplay_id i r) = r"
  by (simp add: with_songplay_id_def songplays_sel.truncate_def)

lemma length_upto_nat: "length [1..int n] = n"
  by simp

lemma map_fst_row_number: "map fst (row_number_over key rs) = [1..int (length rs)]"
  by (simp add: row_number_over_def)

lemma map_snd_row_number: "map snd (row_number_over key rs) = sort_key key rs"
  by (simp add: row_number_over_def)

lemma songplay_ids: "map songplay_id (songplays_table B logs songs) = [1..int (length (songplays_query B logs songs))]"
proof -
  have "map songplay_id (songplays_table B logs songs)
        = map fst (row_number_over sp_start_time (songplays_query B logs songs))"
    by (simp add: songplays_table_def case_prod_unfold songplay_id_with)
  then show ?thesis by (simp only: map_fst_row_number)
qed

lemma songplays_truncate:
  "map songplays_sel.truncate (songplays_table B logs songs) = sort_key sp_start_time (songplays_query B logs songs)"
proof -
  have "map songplays_sel.truncate (songplays_table B logs songs)
        = map snd (row_number_over sp_start_time (songplays_query B logs songs))"
    by (simp add: songplays_table_def case_prod_unfold truncate_with)
  then show ?thesis by (simp only: map_snd_row_number)
qed

lemma songplay_start_times:
  "map sp_start_time (songplays_table B logs songs)
   = map sp_start_time (sort_key sp_start_time (songplays_query B logs songs))"
proof -
  have "map sp_start_time (songplays_table B logs songs)
        = map (sp_start_time \<circ> snd) (row_number_over sp_start_time (songplays_query B logs songs))"
    by (simp add: songplays_table_def case_prod_unfold sp_start_time_with comp_def)
  also have "\<dots> = map sp_start_time (map snd (row_number_over sp_start_time (songplays_query B logs songs)))"
    by simp
  finally show ?thesis by (simp only: map_snd_row_number)
qed

lemma sorted_less_index:
  fixes ks :: "'k::linorder list"
  assumes "sorted ks" "i < length ks" "j < length ks" "ks ! i < ks ! j"
  shows "i < j"
proof (rule ccontr)
  assume "\<not> i < j"
  then have "j \<le> i" by simp
  then have "ks ! j \<le> ks ! i" using assms(1,2) by (simp add: sorted_nth_mono)
  then show False using assms(4) by simp
qed

lemma songplays_ordered:
  assumes a: "a \<in> set (songplays_table B logs songs)" and b: "b \<in> set (songplays_table B logs songs)"
    and lt: "sp_start_time a < sp_start_time b"
  shows "songplay_id a < songplay_id b"
proof -
  let ?T = "songplays_table B logs songs"
  let ?n = "length (songplays_query B logs songs)"
  have len: "length ?T = ?n" by (rule length_songplays_table)
  from a obtain i where i: "i < length ?T" "?T ! i = a" by (auto simp: in_set_conv_nth)
  from b obtain j where j: "j < length ?T" "?T ! j = b" by (auto simp: in_set_conv_nth)
  have srt: "sorted (map sp_start_time ?T)" by (simp only: songplay_start_times sorted_sort_key)
  have "map sp_start_time ?T ! i < map sp_start_time ?T ! j" using i j lt by simp
  then have ij: "i < j" using sorted_less_index [OF srt, of i j] i j by simp
  have id: "\<And>k. k < length ?T \<Longrightarrow> songplay_id (?T ! k) = 1 + int k"
  proof -
    fix k
    assume k: "k < length ?T"
    have "songplay_id (?T ! k) = map songplay_id ?T ! k" using k by simp
    also have "\<dots> = [1..int ?n] ! k" by (simp only: songplay_ids)
    also have "\<dots> = 1 + int k" using k len by (simp add: nth_upto)
    finally show "songplay_id (?T ! k) = 1 + int k" .
  qed
  show ?thesis using id [of i] id [of j] i j ij by simp
qed

subsection \<open>The join of the songplays query\<close>

lemma sql_eq_iff: "sql_eq x y \<longleftrightarrow> x \<noteq> None \<and> x = y"
  by (auto simp: sql_eq_def split: option.splits)

lemma songplays_on_exact: "songplays_on a b = exact_match a b"
  by (auto simp: songplays_on_def exact_match_def sql_eq_iff)

lemma inner_join_comprehension:
  "map (\<lambda>(a, b). f a b) (inner_join cond as bs) = [f a b. a \<leftarrow> as, b \<leftarrow> bs, cond a b]"
proof (induction as)
  case Nil
  show ?case by (simp add: inner_join_def)
next
  case (Cons a as)
  have "map (\<lambda>(a, b). f a b) (map (Pair a) (filter (cond a) bs)) = concat (map (\<lambda>b. if cond a b then [f a b] else []) bs)"
    by (induction bs) simp_all
  then show ?case using Cons.IH by (simp add: inner_join_def)
qed

lemma songplays_query_comprehension:
  "songplays_query B logs songs = [songplays_select B a b. a \<leftarrow> logs, b \<leftarrow> songs, exact_match a b]"
proof -
  show ?thesis
    using inner_join_comprehension [of "songplays_select B" songplays_on logs songs]
    by (simp add: songplays_query_def songplays_on_exact)
qed

lemma songplays_query_empty:
  "songplays_query B logs songs = [] \<longleftrightarrow> \<not> (\<exists>a\<in>set logs. \<exists>b\<in>set songs. exact_match a b)"
proof -
  have "songplays_query B logs songs = [] \<longleftrightarrow> set (inner_join songplays_on logs songs) = {}"
    by (simp add: songplays_query_def)
  also have "\<dots> \<longleftrightarrow> \<not> (\<exists>a\<in>set logs. \<exists>b\<in>set songs. exact_match a b)"
    by (auto simp: set_inner_join songplays_on_exact)
  finally show ?thesis .
qed

lemma songplays_table_empty: "songplays_table B logs songs = [] \<longleftrightarrow> songplays_query B logs songs = []"
  using length_songplays_table [of B logs songs] by (metis length_0_conv)

lemma inner_join_filter:
  assumes "\<And>a. \<not> P a \<Longrightarrow> filter (cond a) bs = []"
  shows "inner_join cond (filter P as) bs = inner_join cond as bs"
  using assms by (induction as) (auto simp: inner_join_def)

lemma songplays_on_null: "song a = None \<or> artist a = None \<Longrightarrow> filter (songplays_on a) songs = []"
  by (auto simp: songplays_on_def sql_eq_def filter_empty_conv split: option.splits)

subsection \<open>The rows of a user\<close>

lemma length_filter_eq_distinct:
  assumes "distinct xs" "x \<in> set xs"
  shows "length (filter (\<lambda>r. r = x) xs) = 1"
proof -
  have "{r. r = x} \<inter> set xs = {x}" using assms(2) by blast
  then show ?thesis using distinct_length_filter [OF assms(1), of "\<lambda>r. r = x"] by simp
qed

lemma user_rows_single:
  assumes a: "a \<in> set logs" and la: "latest_of_user logs a"
    and same: "\<forall>b\<in>set logs. latest_of_user logs b \<and> userId b = userId a \<longrightarrow> users_select B b = users_select B a"
  shows "length (user_rows B logs (userId a)) = 1"
proof -
  have "\<And>r. list_ex (\<lambda>b. latest_of_user logs b \<and> userId b = userId a \<and> r = users_select B b) logs
          \<longleftrightarrow> r = users_select B a"
  proof
    fix r
    assume "list_ex (\<lambda>b. latest_of_user logs b \<and> userId b = userId a \<and> r = users_select B b) logs"
    then obtain b where "b \<in> set logs" "latest_of_user logs b" "userId b = userId a" "r = users_select B b"
      unfolding list_ex_iff by blast
    then show "r = users_select B a" using same by blast
  next
    fix r
    assume "r = users_select B a"
    then show "list_ex (\<lambda>b. latest_of_user logs b \<and> userId b = userId a \<and> r = users_select B b) logs"
      unfolding list_ex_iff using a la by blast
  qed
  then have "user_rows B logs (userId a) = filter (\<lambda>r. r = users_select B a) (users_table B logs)"
    unfolding user_rows_def by presburger
  moreover have "users_select B a \<in> set (users_table B logs)"
    using a la by (simp add: set_users_table)
  ultimately show ?thesis
    using length_filter_eq_distinct [OF distinct_users_table] by simp
qed

subsection \<open>Missing columns\<close>

lemma has_column_mem: "c \<in> set cols \<Longrightarrow> has_column cols c"
  by (auto simp: has_column_def list_ex_iff)

lemma unresolved_None: "unresolved cols needed = None \<longleftrightarrow> (\<forall>c\<in>set needed. has_column cols c)"
proof -
  have "filter (\<lambda>c. \<not> has_column cols c) needed = [] \<longleftrightarrow> (\<forall>c\<in>set needed. has_column cols c)"
    by (auto simp: filter_empty_conv)
  then show ?thesis by (cases "filter (\<lambda>c. \<not> has_column cols c) needed") (auto simp: unresolved_def)
qed

lemma process_song_data_writes:
  "set (map fst (snd (process_song_data songs []))) \<subseteq> {''songs/songs.parquet'', ''artists/artists.parquet''}"
  by (auto simp: process_song_data_def parquet_def Let_def split: option.splits)

lemma process_song_data_ok:
  assumes "\<forall>c\<in>set song_columns. has_column (columns songs) c"
  shows "process_song_data songs []
         = (None, [(''songs/songs.parquet'', Songs (songs_table (rows songs))),
                   (''artists/artists.parquet'', Artists (artists_table (rows songs)))])"
proof -
  have "\<forall>c\<in>set [''song_id'', ''title'', ''artist_id'', ''year'', ''duration'']. has_column (columns songs) c"
    using assms by (simp add: song_columns_def)
  then have a: "unresolved (columns songs) [''song_id'', ''title'', ''artist_id'', ''year'', ''duration''] = None"
    by (simp only: unresolved_None)
  have "\<forall>c\<in>set [''artist_id'', ''artist_name'', ''artist_location'', ''artist_latitude'', ''artist_longitude''].
          has_column (columns songs) c"
    using assms by (simp add: song_columns_def)
  then have b: "unresolved (columns songs)
      [''artist_id'', ''artist_name'', ''artist_location'', ''artist_latitude'', ''artist_longitude''] = None"
    by (simp only: unresolved_None)
  show ?thesis by (simp add: process_song_data_def a b parquet_def Let_def)
qed

lemma process_log_data_aborts:
  assumes "\<exists>c\<in>set log_columns. \<not> has_column (columns logs) c"
  shows "fst (process_log_data B logs songs w) \<noteq> None \<and> snd (process_log_data B logs songs w) = w"
proof (cases "has_column (columns logs) ''ts'' \<and> ''page'' \<in> set (columns logs)")
  case False
  then show ?thesis by (auto simp: process_log_data_def)
next
  case True
  then have page: "has_column (columns logs) ''page''" by (simp add: has_column_mem)
  have "\<not> (\<forall>c\<in>set [''ts'', ''userId'', ''firstName'', ''lastName'', ''gender'', ''level'',
                   ''song'', ''artist'', ''sessionId'', ''location'', ''userAgent'']. has_column (columns logs) c)"
    using assms True page by (auto simp: log_columns_def)
  then have "unresolved (columns logs) [''ts'', ''userId'', ''firstName'', ''lastName'', ''gender'', ''level'',
                   ''song'', ''artist'', ''sessionId'', ''location'', ''userAgent''] \<noteq> None"
    using unresolved_None [of "columns logs"] by blast
  then obtain c where "unresolved (columns logs) [''ts'', ''userId'', ''firstName'', ''lastName'', ''gender'', ''level'',
                   ''song'', ''artist'', ''sessionId'', ''location'', ''userAgent''] = Some c"
    by blast
  then show ?thesis using True by (simp add: process_log_data_def)
qed

subsection \<open>The conversion of a long timestamp\<close>

text \<open>Three doubles whose digits are known: 0.1, 1/3, and the long \<open>2 ^ 53 + 1\<close>, a tie.\<close>

lemma to_double_examples:
  "to_double 1 10 = (7205759403792794, - 56)"
  "to_double 1 3 = (6004799503160661, - 54)"
  "to_double 9007199254740993 1 = (4503599627370496, 1)"
  by code_simp+


lemma bitlen_eqI:
  assumes "2 ^ n \<le> x" and "x < 2 ^ Suc n"
  shows "bitlen x = int n + 1"
proof (rule antisym)
  have "x < 2 ^ nat (int n + 1)" using assms(2) by (simp add: nat_add_distrib)
  then show "bitlen x \<le> int n + 1" by (simp only: bitlen_le_iff_power) simp
  have "2 ^ (nat (int n + 1) - 1) \<le> x" using assms(1) by (simp add: nat_add_distrib)
  then show "int n + 1 \<le> bitlen x" by (simp only: bitlen_ge_iff_power) simp
qed

lemma rne_one: "rne a 1 = a"
  by (simp add: rne_def)

lemma rne_err:
  assumes "0 < b"
  shows "2 * \<bar>rne a b * b - a\<bar> \<le> b"
proof -
  let ?q = "a div b" and ?r = "a mod b"
  have a: "a = ?q * b + ?r" by simp
  have r: "0 \<le> ?r" "?r < b" using assms by simp_all
  show ?thesis
  proof (cases "2 * ?r < b \<or> (2 * ?r = b \<and> even ?q)")
    case True
    then have "rne a b = ?q" by (simp add: rne_def Let_def)
    then have "rne a b * b - a = - ?r" using a by (metis add_diff_cancel_left' minus_diff_eq diff_0 add.commute uminus_add_conv_diff)
    then show ?thesis using True r by auto
  next
    case False
    then have "rne a b = ?q + 1" by (simp add: rne_def Let_def)
    then have "rne a b * b - a = b - ?r" using a by (simp add: algebra_simps)
    then show ?thesis using False r by auto
  qed
qed

lemma rne_near:
  assumes "0 < b" and "2 * \<bar>a - n * b\<bar> < b"
  shows "rne a b = n"
proof -
  define d where "d = a - n * b"
  have a: "a = d + n * b" by (simp add: d_def)
  show ?thesis
  proof (cases "0 \<le> d")
    case True
    have db: "d < b" using assms(2) True by (simp add: d_def)
    have "a div b = n" unfolding a using True db assms(1) by (simp add: div_pos_pos_trivial)
    moreover have "a mod b = d" unfolding a using True db by (simp add: mod_pos_pos_trivial)
    moreover have "2 * d < b" using assms(2) True by (simp add: d_def)
    ultimately show ?thesis by (simp add: rne_def Let_def)
  next
    case False
    have a': "a = (d + b) + (n - 1) * b" by (simp add: d_def algebra_simps)
    have lo: "0 \<le> d + b" "d + b < b" using assms(2) False by (auto simp: d_def)
    have "(d + b) div b = 0" using lo by (rule div_pos_pos_trivial)
    then have "a div b = n - 1" unfolding a' using assms(1) by (simp only: div_mult_self1)
    moreover have "(d + b) mod b = d + b" using lo by (rule mod_pos_pos_trivial)
    then have "a mod b = d + b" unfolding a' by (simp only: mod_mult_self1)
    moreover have "b < 2 * (d + b)" using assms(2) False by (auto simp: d_def)
    ultimately show ?thesis by (simp add: rne_def Let_def)
  qed
qed

lemma product_near:
  fixes mq t :: int
  assumes err: "2 * \<bar>mq * 4096000 - t * 17179869184\<bar> \<le> 4096000"
  shows "\<bar>mq * 1000000 - t * 4194304000\<bar> \<le> 500000"
proof -
  define D where "D = mq * 4096000 - t * 17179869184"
  define X where "X = mq * 1000000 - t * 4194304000"
  have rel: "4096 * X = 1000 * D" by (simp add: X_def D_def)
  have "\<bar>D\<bar> \<le> 2048000" using err unfolding D_def by simp
  then have "- 2048000 \<le> D" "D \<le> 2048000" by simp_all
  then have "- 2048000000 \<le> 4096 * X" "4096 * X \<le> 2048000000" unfolding rel by simp_all
  then have "- 500000 \<le> X" "X \<le> 500000" by simp_all
  then show ?thesis unfolding X_def by simp
qed

lemma quotient_no_carry:
  fixes mq t :: int
  assumes err: "2 * \<bar>mq * 4096000 - t * 17179869184\<bar> \<le> 4096000" and "t < 2147483648000"
  shows "mq \<noteq> 9007199254740992"
proof
  assume "mq = 9007199254740992"
  then have "mq * 4096000 - t * 17179869184 = (2147483648000 - t) * 17179869184" by simp
  moreover have "1 \<le> 2147483648000 - t" using assms(2) by simp
  then have "17179869184 \<le> (2147483648000 - t) * 17179869184" by simp
  ultimately show False using err by simp
qed

lemma to_double_long:
  assumes "1125899906843 \<le> t" and "t < 2147483648000"
  shows "to_double t 1 = (t * 4096, - 12)"
proof -
  have "(2::int) ^ 40 \<le> t" "t < 2 ^ Suc 40" using assms by simp_all
  then have bl: "bitlen t = 41" using bitlen_eqI [of 40 t] by simp
  have b1: "bitlen 1 = 1" using bitlen_eqI [of 0 1] by simp
  have p: "pow2_le 40 t 1" using assms by (simp add: pow2_le_def)
  have e: "binade t 1 = - 12" by (simp add: binade_def bl b1 p)
  have m: "scaled_rne t 1 (- 12) = t * 4096" by (simp add: scaled_rne_def rne_one)
  show ?thesis using assms by (simp add: to_double_def e m)
qed

lemma quotient_double:
  assumes "1125899906843 \<le> t" and "t < 2147483648000"
  defines "mq \<equiv> rne (t * 17179869184) 4096000"
  shows "double_div (t * 4096, - 12) 1000 = (mq, - 22)"
    and "2 * \<bar>mq * 4096000 - t * 17179869184\<bar> \<le> 4096000"
proof -
  show err: "2 * \<bar>mq * 4096000 - t * 17179869184\<bar> \<le> 4096000"
    unfolding mq_def by (rule rne_err) simp
  have "(2::int) ^ 52 \<le> t * 4096" "t * 4096 < 2 ^ Suc 52" using assms by simp_all
  then have bl: "bitlen (t * 4096) = 53" using bitlen_eqI [of 52 "t * 4096"] by simp
  have b2: "bitlen 4096000 = 22" using bitlen_eqI [of 21 4096000] by simp
  have p: "\<not> pow2_le 31 (t * 4096) 4096000" using assms by (simp add: pow2_le_def)
  have e: "binade (t * 4096) 4096000 = - 22" by (simp add: binade_def bl b2 p)
  have m: "scaled_rne (t * 4096) 4096000 (- 22) = mq" by (simp add: scaled_rne_def mq_def mult.commute)
  have lt: "mq \<noteq> 9007199254740992" using err assms(2) by (rule quotient_no_carry)
  have "to_double (t * 4096) 4096000 = (mq, - 22)"
    using assms lt by (simp add: to_double_def e m)
  then show "double_div (t * 4096, - 12) 1000 = (mq, - 22)" by (simp add: double_div_def)
qed

lemma product_double:
  assumes "1125899906843 \<le> t" and "t < 2147483648000"
    and err: "2 * \<bar>mq * 4096000 - t * 17179869184\<bar> \<le> 4096000"
  shows "double_mult (mq, - 22) 1000000 = (4000 * t, - 2)"
proof -
  let ?a = "mq * 1000000"
  have near: "\<bar>?a - t * 4194304000\<bar> \<le> 500000" using err by (rule product_near)
  have "(2::int) ^ 72 \<le> ?a" "?a < 2 ^ Suc 72" using near assms by simp_all
  then have bl: "bitlen ?a = 73" using bitlen_eqI [of 72 ?a] by simp
  have b2: "bitlen 4194304 = 23" using bitlen_eqI [of 22 4194304] by simp
  have p: "pow2_le 50 ?a 4194304" using near assms by (simp add: pow2_le_def)
  have e: "binade ?a 4194304 = - 2" by (simp add: binade_def bl b2 p)
  have "?a * 4 - (4000 * t) * 4194304 = 4 * (?a - t * 4194304000)" by simp
  then have "\<bar>?a * 4 - (4000 * t) * 4194304\<bar> = 4 * \<bar>?a - t * 4194304000\<bar>"
    by (simp only: abs_mult abs_numeral)
  then have "2 * \<bar>?a * 4 - (4000 * t) * 4194304\<bar> < 4194304" using near by simp
  then have "rne (?a * 4) 4194304 = 4000 * t" by (intro rne_near) simp_all
  then have m: "scaled_rne ?a 4194304 (- 2) = 4000 * t" by (simp add: scaled_rne_def)
  have pos: "0 < ?a" using near assms by linarith
  have "to_double ?a 4194304 = (4000 * t, - 2)"
    using assms pos by (simp add: to_double_def e m)
  then show ?thesis by (simp add: double_mult_def)
qed

lemma spark_timestamp_exact:
  assumes "1125899906843 \<le> t" and "t < 2147483648000"
  shows "spark_timestamp t = 1000 * t"
proof -
  note q = quotient_double [OF assms]
  have "double_mult (double_div (to_double t 1) 1000) 1000000 = (4000 * t, - 2)"
    using product_double [OF assms q(2)] by (simp only: to_double_long [OF assms] q(1))
  then show ?thesis using assms by (simp add: spark_timestamp_def double_to_long_def)
qed

section \<open>The claims\<close>

subsection \<open>The songs and artists tables\<close>

text \<open>
  Claim C4. For every group of records of the song data that share a song id, the row of
  the songs table has, in title, artist id, year and duration, the least of the group's
  non-null values of that column, and NULL when the group has none; likewise the row
  of the artists table for every group that shares an artist id, in name, location,
  latitude and longitude. Every group has its row.
\<close>

theorem min_value_per_group:
  "(\<forall>x\<in>set songs. \<exists>r\<in>set (songs_table songs). s_song_id r = song_id x)
   \<and> (\<forall>r\<in>set (songs_table songs).
        let g = filter (\<lambda>x. song_id x = s_song_id r) songs in
          g \<noteq> [] \<and> min_non_null (s_title r) (map title g)
          \<and> min_non_null (s_artist_id r) (map artist_id g)
          \<and> min_non_null (s_year r) (map year g)
          \<and> min_non_null (s_duration r) (map duration g))
   \<and> (\<forall>x\<in>set songs. \<exists>r\<in>set (artists_table songs). a_artist_id r = artist_id x)
   \<and> (\<forall>r\<in>set (artists_table songs).
        let g = filter (\<lambda>x. artist_id x = a_artist_id r) songs in
          g \<noteq> [] \<and> min_non_null (a_name r) (map artist_name g)
          \<and> min_non_null (a_location r) (map artist_location g)
          \<and> min_non_null (a_latitude r) (map artist_latitude g)
          \<and> min_non_null (a_longitude r) (map artist_longitude g))"
proof (intro conjI ballI)
  fix x
  assume "x \<in> set songs"
  then have "song_id x \<in> set (map s_song_id (songs_table songs))"
    by (simp only: songs_table_ids set_remdups) simp
  then show "\<exists>r\<in>set (songs_table songs). s_song_id r = song_id x" by auto
next
  fix r
  assume "r \<in> set (songs_table songs)"
  from songs_table_row [OF this] show
    "let g = filter (\<lambda>x. song_id x = s_song_id r) songs in
          g \<noteq> [] \<and> min_non_null (s_title r) (map title g)
          \<and> min_non_null (s_artist_id r) (map artist_id g)
          \<and> min_non_null (s_year r) (map year g)
          \<and> min_non_null (s_duration r) (map duration g)"
    by (simp add: Let_def sql_min_is_min)
next
  fix x
  assume "x \<in> set songs"
  then have "artist_id x \<in> set (map a_artist_id (artists_table songs))"
    by (simp only: artists_table_ids set_remdups) simp
  then show "\<exists>r\<in>set (artists_table songs). a_artist_id r = artist_id x" by auto
next
  fix r
  assume "r \<in> set (artists_table songs)"
  from artists_table_row [OF this] show
    "let g = filter (\<lambda>x. artist_id x = a_artist_id r) songs in
          g \<noteq> [] \<and> min_non_null (a_name r) (map artist_name g)
          \<and> min_non_null (a_location r) (map artist_location g)
          \<and> min_non_null (a_latitude r) (map artist_latitude g)
          \<and> min_non_null (a_longitude r) (map artist_longitude g)"
    by (simp add: Let_def sql_min_is_min)
qed

text \<open>The example of the specification: titles Zebra and Apple under one song id give Apple.\<close>

theorem min_value_per_group_witness:
  "songs_table
     [\<lparr>song_id = Some ''S1'', title = Some ''Zebra'', artist_id = Some ''A1'', artist_name = Some ''X'',
       artist_location = None, artist_latitude = None, artist_longitude = None,
       year = Some 2001, duration = Some (200::int)\<rparr>,
      \<lparr>song_id = Some ''S1'', title = Some ''Apple'', artist_id = Some ''A1'', artist_name = Some ''X'',
       artist_location = None, artist_latitude = None, artist_longitude = None,
       year = None, duration = Some 180\<rparr>]
   = [\<lparr>s_song_id = Some ''S1'', s_title = Some ''Apple'', s_artist_id = Some ''A1'',
       s_year = Some 2001, s_duration = Some 180\<rparr>]
   \<and> min_non_null (Some ''Apple'') [Some ''Zebra'', Some ''Apple'']
   \<and> min_non_null (Some (2001::int)) [Some 2001, None]
   \<and> min_non_null (None::string option) [None, None]"
  using min_value_per_group
    [of "[\<lparr>song_id = Some ''S1'', title = Some ''Zebra'', artist_id = Some ''A1'', artist_name = Some ''X'',
       artist_location = None, artist_latitude = None, artist_longitude = None,
       year = Some 2001, duration = Some (200::int)\<rparr>,
      \<lparr>song_id = Some ''S1'', title = Some ''Apple'', artist_id = Some ''A1'', artist_name = Some ''X'',
       artist_location = None, artist_latitude = None, artist_longitude = None,
       year = None, duration = Some 180\<rparr>]"]
  by (simp add: songs_table_def artists_table_def group_by_def sql_min_def non_null_def min_non_null_def)

text \<open>
  Claim C8, as the program has it. The song ids of the songs table are pairwise
  different and are exactly the values of \<open>song_id\<close> in the song data, NULL included:
  \<open>GROUP BY\<close> makes one group of the records whose id is NULL, and nothing removes
  its row. The same holds of the artists table and \<open>artist_id\<close>.
\<close>

theorem songs_artists_one_row_per_id:
  "distinct (map s_song_id (songs_table songs))
   \<and> set (map s_song_id (songs_table songs)) = set (map song_id songs)
   \<and> distinct (map a_artist_id (artists_table songs))
   \<and> set (map a_artist_id (artists_table songs)) = set (map artist_id songs)"
  by (simp only: songs_table_ids artists_table_ids distinct_remdups set_remdups simp_thms)

text \<open>
  Claim C8 as stated fails: a song data set whose only record has no song id and no
  artist id has no non-null id at all, and yet each table has one row.
\<close>

theorem one_row_per_non_null_id_counterexample:
  "songs_table
     [\<lparr>song_id = None, title = Some ''Halo'', artist_id = None, artist_name = Some ''Beyonce'',
       artist_location = None, artist_latitude = None, artist_longitude = None,
       year = Some 2008, duration = Some (261::int)\<rparr>]
   = [\<lparr>s_song_id = None, s_title = Some ''Halo'', s_artist_id = None, s_year = Some 2008,
       s_duration = Some 261\<rparr>]
   \<and> artists_table
     [\<lparr>song_id = None, title = Some ''Halo'', artist_id = None, artist_name = Some ''Beyonce'',
       artist_location = None, artist_latitude = None, artist_longitude = None,
       year = Some 2008, duration = Some (261::int)\<rparr>]
   = [\<lparr>a_artist_id = None, a_name = Some ''Beyonce'', a_location = None, a_latitude = None,
       a_longitude = None\<rparr>]
   \<and> non_null [song_id
        \<lparr>song_id = None, title = Some ''Halo'', artist_id = None, artist_name = Some ''Beyonce'',
         artist_location = None, artist_latitude = None, artist_longitude = None,
         year = Some 2008, duration = Some (261::int)\<rparr>] = []"
  by (simp add: songs_table_def artists_table_def group_by_def sql_min_def non_null_def)


subsection \<open>The time table\<close>

text \<open>
  Claim C6. No two rows of the time table have the same \<open>start_time\<close> (two NULLs count
  as the same), the values of \<open>start_time\<close> in the table are those of the filtered
  events, and every row is its \<open>start_time\<close> with the six calendar fields computed from
  that value alone.
\<close>

theorem time_table_distinct_start_time:
  "distinct (map t_start_time (time_table B (logs_view B raw)))
   \<and> set (map t_start_time (time_table B (logs_view B raw))) = set (map start_time (logs_view B raw))
   \<and> (\<forall>r\<in>set (time_table B (logs_view B raw)). r = time_select B (t_start_time r))"
proof (intro conjI ballI)
  show "distinct (map t_start_time (time_table B (logs_view B raw)))" by (rule distinct_time_table)
  show "set (map t_start_time (time_table B (logs_view B raw))) = set (map start_time (logs_view B raw))"
    by (simp add: time_table_def image_image t_start_time_select)
next
  fix r
  assume "r \<in> set (time_table B (logs_view B raw))"
  then show "r = time_select B (t_start_time r)" by (rule time_table_rows)
qed

text \<open>Two song plays at the same millisecond and one event of another page give one row.\<close>

theorem time_table_distinct_start_time_witness:
  "time_table utc (logs_view utc
      [play 1541106106796 ''7'' ''free'' (Some ''Halo'') (Some ''Beyonce''),
       play 1541106106796 ''8'' ''paid'' None None,
       (play 0 ''8'' ''paid'' None None)\<lparr>page := Some ''Home''\<rparr>])
   = [\<lparr>t_start_time = Some 1541106106796000, t_hour = Some 21, t_day = Some 1, t_week = Some 44,
       t_month = Some 11, t_year = Some 2018, t_weekday = Some 5\<rparr>]
   \<and> distinct (map t_start_time (time_table utc (logs_view utc
      [play 1541106106796 ''7'' ''free'' (Some ''Halo'') (Some ''Beyonce''),
       play 1541106106796 ''8'' ''paid'' None None,
       (play 0 ''8'' ''paid'' None None)\<lparr>page := Some ''Home''\<rparr>])))"
proof (rule conjI)
  show "time_table utc (logs_view utc
      [play 1541106106796 ''7'' ''free'' (Some ''Halo'') (Some ''Beyonce''),
       play 1541106106796 ''8'' ''paid'' None None,
       (play 0 ''8'' ''paid'' None None)\<lparr>page := Some ''Home''\<rparr>])
   = [\<lparr>t_start_time = Some 1541106106796000, t_hour = Some 21, t_day = Some 1, t_week = Some 44,
       t_month = Some 11, t_year = Some 2018, t_weekday = Some 5\<rparr>]"
    by code_simp
  show "distinct (map t_start_time (time_table utc (logs_view utc
      [play 1541106106796 ''7'' ''free'' (Some ''Halo'') (Some ''Beyonce''),
       play 1541106106796 ''8'' ''paid'' None None,
       (play 0 ''8'' ''paid'' None None)\<lparr>page := Some ''Home''\<rparr>])))"
    using time_table_distinct_start_time by (rule conjunct1)
qed

subsection \<open>The songplays table\<close>

text \<open>
  Claim C2. The values of \<open>songplay_id\<close> are 1, 2, ..., N for the N rows of the
  songplays table, and of any two rows the one with the smaller \<open>start_time\<close> has the
  smaller \<open>songplay_id\<close>: the window has no partition, so the order is one order of the
  whole table. (A NULL \<open>start_time\<close> counts as smaller than every timestamp, as Spark
  sorts NULLs first.)
\<close>

theorem songplay_ids_dense_ordered:
  "map songplay_id (songplays_table B (logs_view B raw) songs)
     = [1..int (length (songplays_table B (logs_view B raw) songs))]
   \<and> (\<forall>a\<in>set (songplays_table B (logs_view B raw) songs).
        \<forall>b\<in>set (songplays_table B (logs_view B raw) songs).
          sp_start_time a < sp_start_time b \<longrightarrow> songplay_id a < songplay_id b)"
proof (intro conjI ballI impI)
  show "map songplay_id (songplays_table B (logs_view B raw) songs)
     = [1..int (length (songplays_table B (logs_view B raw) songs))]"
    by (simp only: songplay_ids length_songplays_table)
next
  fix a b
  assume "a \<in> set (songplays_table B (logs_view B raw) songs)"
    "b \<in> set (songplays_table B (logs_view B raw) songs)"
    "sp_start_time a < sp_start_time b"
  then show "songplay_id a < songplay_id b" by (rule songplays_ordered)
qed

text \<open>Two plays read in the order later, earlier: the earlier one gets key 1.\<close>

theorem songplay_ids_dense_ordered_witness:
  "map (\<lambda>r. (songplay_id r, sp_start_time r, sp_song_id r))
     (songplays_table utc
        (logs_view utc [play 2000 ''7'' ''free'' (Some ''Halo'') (Some ''Beyonce''),
                        play 1000 ''8'' ''paid'' (Some ''Zebra'') (Some ''X'')])
        [track (Some ''S1'') (Some ''Halo'') (Some ''C1'') (Some ''Beyonce''),
         track (Some ''S2'') (Some ''Zebra'') (Some ''A1'') (Some ''X'')])
   = [(1, Some 1000000, Some ''S2''), (2, Some 2000000, Some ''S1'')]
   \<and> map songplay_id
     (songplays_table utc
        (logs_view utc [play 2000 ''7'' ''free'' (Some ''Halo'') (Some ''Beyonce''),
                        play 1000 ''8'' ''paid'' (Some ''Zebra'') (Some ''X'')])
        [track (Some ''S1'') (Some ''Halo'') (Some ''C1'') (Some ''Beyonce''),
         track (Some ''S2'') (Some ''Zebra'') (Some ''A1'') (Some ''X'')])
   = [1..int (length
     (songplays_table utc
        (logs_view utc [play 2000 ''7'' ''free'' (Some ''Halo'') (Some ''Beyonce''),
                        play 1000 ''8'' ''paid'' (Some ''Zebra'') (Some ''X'')])
        [track (Some ''S1'') (Some ''Halo'') (Some ''C1'') (Some ''Beyonce''),
         track (Some ''S2'') (Some ''Zebra'') (Some ''A1'') (Some ''X'')]))]"
proof (rule conjI)
  show "map (\<lambda>r. (songplay_id r, sp_start_time r, sp_song_id r))
     (songplays_table utc
        (logs_view utc [play 2000 ''7'' ''free'' (Some ''Halo'') (Some ''Beyonce''),
                        play 1000 ''8'' ''paid'' (Some ''Zebra'') (Some ''X'')])
        [track (Some ''S1'') (Some ''Halo'') (Some ''C1'') (Some ''Beyonce''),
         track (Some ''S2'') (Some ''Zebra'') (Some ''A1'') (Some ''X'')])
   = [(1, Some 1000000, Some ''S2''), (2, Some 2000000, Some ''S1'')]"
    by code_simp
  show "map songplay_id
     (songplays_table utc
        (logs_view utc [play 2000 ''7'' ''free'' (Some ''Halo'') (Some ''Beyonce''),
                        play 1000 ''8'' ''paid'' (Some ''Zebra'') (Some ''X'')])
        [track (Some ''S1'') (Some ''Halo'') (Some ''C1'') (Some ''Beyonce''),
         track (Some ''S2'') (Some ''Zebra'') (Some ''A1'') (Some ''X'')])
   = [1..int (length
     (songplays_table utc
        (logs_view utc [play 2000 ''7'' ''free'' (Some ''Halo'') (Some ''Beyonce''),
                        play 1000 ''8'' ''paid'' (Some ''Zebra'') (Some ''X'')])
        [track (Some ''S1'') (Some ''Halo'') (Some ''C1'') (Some ''Beyonce''),
         track (Some ''S2'') (Some ''Zebra'') (Some ''A1'') (Some ''X'')]))]"
    using songplay_ids_dense_ordered by (rule conjunct1)
qed

text \<open>
  Claim C1, as the program has it. The query joins the view \<open>logs\<close> with the view
  \<open>songs\<close>, the song data as read, not with the songs and artists tables. The
  songplays table, each row taken without its \<open>songplay_id\<close>, holds exactly one row for
  every pair of a filtered event and a record of the song data that match exactly, as
  many rows as there are such pairs; so it has a row if and only if some filtered
  event matches some record of the song data.
\<close>

theorem songplays_one_row_per_match:
  "mset (map songplays_sel.truncate (songplays_table B (logs_view B raw) songs))
     = mset [songplays_select B a b. a \<leftarrow> logs_view B raw, b \<leftarrow> songs, exact_match a b]
   \<and> (songplays_table B (logs_view B raw) songs \<noteq> []
        \<longleftrightarrow> (\<exists>a\<in>set (logs_view B raw). \<exists>b\<in>set songs. exact_match a b))"
proof (rule conjI)
  have "mset (map songplays_sel.truncate (songplays_table B (logs_view B raw) songs))
        = mset (songplays_query B (logs_view B raw) songs)"
    by (simp only: songplays_truncate mset_sort)
  then show "mset (map songplays_sel.truncate (songplays_table B (logs_view B raw) songs))
     = mset [songplays_select B a b. a \<leftarrow> logs_view B raw, b \<leftarrow> songs, exact_match a b]"
    by (simp only: songplays_query_comprehension)
  show "songplays_table B (logs_view B raw) songs \<noteq> []
        \<longleftrightarrow> (\<exists>a\<in>set (logs_view B raw). \<exists>b\<in>set songs. exact_match a b)"
    by (simp only: songplays_table_empty songplays_query_empty not_not)
qed

text \<open>
  One play matches two records of the song data and gives two rows, one for each
  record (which of the two gets the key 1 is open, their \<open>start_time\<close> being the
  same); a play that matches none gives no row.
\<close>

theorem songplays_one_row_per_match_witness:
  "map (\<lambda>r. (songplay_id r, sp_user_id r, sp_artist_id r))
     (songplays_table utc
      (logs_view utc
        [play 1000 ''7'' ''free'' (Some ''Halo'') (Some ''Beyonce''),
         play 2000 ''8'' ''paid'' (Some ''Other'') (Some ''Beyonce'')])
     [track (Some ''S1'') (Some ''Halo'') (Some ''C1'') (Some ''Beyonce''),
      track (Some ''S2'') (Some ''Halo'') (Some ''C1'') (Some ''Beyonce'')])
   = [(1, Some 7, Some ''C1''), (2, Some 7, Some ''C1'')]
   \<and> set (map sp_song_id
     (songplays_table utc
      (logs_view utc
        [play 1000 ''7'' ''free'' (Some ''Halo'') (Some ''Beyonce''),
         play 2000 ''8'' ''paid'' (Some ''Other'') (Some ''Beyonce'')])
     [track (Some ''S1'') (Some ''Halo'') (Some ''C1'') (Some ''Beyonce''),
      track (Some ''S2'') (Some ''Halo'') (Some ''C1'') (Some ''Beyonce'')]))
   = {Some ''S1'', Some ''S2''}
   \<and> mset (map songplays_sel.truncate
     (songplays_table utc
      (logs_view utc
        [play 1000 ''7'' ''free'' (Some ''Halo'') (Some ''Beyonce''),
         play 2000 ''8'' ''paid'' (Some ''Other'') (Some ''Beyonce'')])
     [track (Some ''S1'') (Some ''Halo'') (Some ''C1'') (Some ''Beyonce''),
      track (Some ''S2'') (Some ''Halo'') (Some ''C1'') (Some ''Beyonce'')]))
   = mset [songplays_select utc a b.
       a \<leftarrow> logs_view utc
        [play 1000 ''7'' ''free'' (Some ''Halo'') (Some ''Beyonce''),
         play 2000 ''8'' ''paid'' (Some ''Other'') (Some ''Beyonce'')],
       b \<leftarrow> [track (Some ''S1'') (Some ''Halo'') (Some ''C1'') (Some ''Beyonce''),
      track (Some ''S2'') (Some ''Halo'') (Some ''C1'') (Some ''Beyonce'')],
       exact_match a b]"
proof (intro conjI)
  show "map (\<lambda>r. (songplay_id r, sp_user_id r, sp_artist_id r))
     (songplays_table utc
      (logs_view utc
        [play 1000 ''7'' ''free'' (Some ''Halo'') (Some ''Beyonce''),
         play 2000 ''8'' ''paid'' (Some ''Other'') (Some ''Beyonce'')])
     [track (Some ''S1'') (Some ''Halo'') (Some ''C1'') (Some ''Beyonce''),
      track (Some ''S2'') (Some ''Halo'') (Some ''C1'') (Some ''Beyonce'')])
   = [(1, Some 7, Some ''C1''), (2, Some 7, Some ''C1'')]"
    by code_simp
  show "set (map sp_song_id
     (songplays_table utc
      (logs_view utc
        [play 1000 ''7'' ''free'' (Some ''Halo'') (Some ''Beyonce''),
         play 2000 ''8'' ''paid'' (Some ''Other'') (Some ''Beyonce'')])
     [track (Some ''S1'') (Some ''Halo'') (Some ''C1'') (Some ''Beyonce''),
      track (Some ''S2'') (Some ''Halo'') (Some ''C1'') (Some ''Beyonce'')]))
   = {Some ''S1'', Some ''S2''}"
    by code_simp
  show "mset (map songplays_sel.truncate
     (songplays_table utc
      (logs_view utc
        [play 1000 ''7'' ''free'' (Some ''Halo'') (Some ''Beyonce''),
         play 2000 ''8'' ''paid'' (Some ''Other'') (Some ''Beyonce'')])
     [track (Some ''S1'') (Some ''Halo'') (Some ''C1'') (Some ''Beyonce''),
      track (Some ''S2'') (Some ''Halo'') (Some ''C1'') (Some ''Beyonce'')]))
   = mset [songplays_select utc a b.
       a \<leftarrow> logs_view utc
        [play 1000 ''7'' ''free'' (Some ''Halo'') (Some ''Beyonce''),
         play 2000 ''8'' ''paid'' (Some ''Other'') (Some ''Beyonce'')],
       b \<leftarrow> [track (Some ''S1'') (Some ''Halo'') (Some ''C1'') (Some ''Beyonce''),
      track (Some ''S2'') (Some ''Halo'') (Some ''C1'') (Some ''Beyonce'')],
       exact_match a b]"
    using songplays_one_row_per_match by (rule conjunct1)
qed

text \<open>
  Claim C1 as stated fails: the song data has the titles Zebra and Apple under one song
  id, so the only title of the songs table is Apple and the only name of the artists
  table is X; a play of Zebra by X matches no pair of a title of the songs table and a
  name of the artists table, and yet the songplays table has a row for it.
\<close>

theorem songplays_match_dimension_counterexample:
  "map song (logs_view utc [play 1000 ''7'' ''free'' (Some ''Zebra'') (Some ''X'')]) = [Some ''Zebra'']
   \<and> map s_title (songs_table
     [track (Some ''S1'') (Some ''Zebra'') (Some ''A1'') (Some ''X''),
      track (Some ''S1'') (Some ''Apple'') (Some ''A1'') (Some ''X'')]) = [Some ''Apple'']
   \<and> map a_name (artists_table
     [track (Some ''S1'') (Some ''Zebra'') (Some ''A1'') (Some ''X''),
      track (Some ''S1'') (Some ''Apple'') (Some ''A1'') (Some ''X'')]) = [Some ''X'']
   \<and> map sp_song_id (songplays_table utc
     (logs_view utc [play 1000 ''7'' ''free'' (Some ''Zebra'') (Some ''X'')])
     [track (Some ''S1'') (Some ''Zebra'') (Some ''A1'') (Some ''X''),
      track (Some ''S1'') (Some ''Apple'') (Some ''A1'') (Some ''X'')]) = [Some ''S1'']"
  by code_simp

text \<open>
  Claim C9. An event whose song or whose artist is NULL joins with no record of the
  song data, whatever the records are, and the songplays table is the one computed
  without the events that have a NULL song or a NULL artist.
\<close>

theorem null_song_or_artist_no_row:
  "(song a = None \<or> artist a = None \<longrightarrow> songplays_table B [a] songs = [])
   \<and> songplays_table B (logs_view B raw) songs
       = songplays_table B (filter (\<lambda>a. song a \<noteq> None \<and> artist a \<noteq> None) (logs_view B raw)) songs"
proof (intro conjI impI)
  assume "song a = None \<or> artist a = None"
  then have "inner_join songplays_on [a] songs = []"
    using songplays_on_null [of a songs] by (simp add: inner_join_def)
  then show "songplays_table B [a] songs = []"
    by (simp add: songplays_table_empty songplays_query_def)
next
  have "inner_join songplays_on (filter (\<lambda>a. song a \<noteq> None \<and> artist a \<noteq> None) (logs_view B raw)) songs
        = inner_join songplays_on (logs_view B raw) songs"
    by (rule inner_join_filter, rule songplays_on_null) blast
  then show "songplays_table B (logs_view B raw) songs
       = songplays_table B (filter (\<lambda>a. song a \<noteq> None \<and> artist a \<noteq> None) (logs_view B raw)) songs"
    by (simp add: songplays_table_def songplays_query_def)
qed

text \<open>Events with a NULL song or artist against records with a NULL title or artist name: no row.\<close>

theorem null_song_or_artist_no_row_witness:
  "songplays_table utc
     (logs_view utc
       [play 1000 ''7'' ''free'' None (Some ''X''),
        play 2000 ''8'' ''paid'' (Some ''Halo'') None])
     [track (Some ''S1'') None (Some ''A1'') (Some ''X''),
      track (Some ''S2'') (Some ''Halo'') (Some ''A2'') None] = []
   \<and> songplays_table utc
     (logs_view utc
       [play 1000 ''7'' ''free'' None (Some ''X''),
        play 2000 ''8'' ''paid'' (Some ''Halo'') None])
     [track (Some ''S1'') None (Some ''A1'') (Some ''X''),
      track (Some ''S2'') (Some ''Halo'') (Some ''A2'') None]
   = songplays_table utc
     (filter (\<lambda>a. song a \<noteq> None \<and> artist a \<noteq> None) (logs_view utc
       [play 1000 ''7'' ''free'' None (Some ''X''),
        play 2000 ''8'' ''paid'' (Some ''Halo'') None]))
     [track (Some ''S1'') None (Some ''A1'') (Some ''X''),
      track (Some ''S2'') (Some ''Halo'') (Some ''A2'') None]"
proof (rule conjI)
  show "songplays_table utc
     (logs_view utc
       [play 1000 ''7'' ''free'' None (Some ''X''),
        play 2000 ''8'' ''paid'' (Some ''Halo'') None])
     [track (Some ''S1'') None (Some ''A1'') (Some ''X''),
      track (Some ''S2'') (Some ''Halo'') (Some ''A2'') None] = []"
    by code_simp
  show "songplays_table utc
     (logs_view utc
       [play 1000 ''7'' ''free'' None (Some ''X''),
        play 2000 ''8'' ''paid'' (Some ''Halo'') None])
     [track (Some ''S1'') None (Some ''A1'') (Some ''X''),
      track (Some ''S2'') (Some ''Halo'') (Some ''A2'') None]
   = songplays_table utc
     (filter (\<lambda>a. song a \<noteq> None \<and> artist a \<noteq> None) (logs_view utc
       [play 1000 ''7'' ''free'' None (Some ''X''),
        play 2000 ''8'' ''paid'' (Some ''Halo'') None]))
     [track (Some ''S1'') None (Some ''A1'') (Some ''X''),
      track (Some ''S2'') (Some ''Halo'') (Some ''A2'') None]"
    using null_song_or_artist_no_row by (rule conjunct2)
qed

subsection \<open>The users table\<close>

text \<open>
  Claim C3, as the program has it. The users table has no two equal rows, and its rows
  are exactly the rows selected (the user id cast to \<open>int\<close>, first name, last name,
  gender, level) from the latest events of the users: the filtered events with a user
  id and a timestamp that are not NULL and with the greatest timestamp among the
  filtered events of that user id. A user id whose latest events all give the same
  row has exactly one row; when several events share the greatest timestamp and
  differ in name, gender or level, each of them gives a row.
\<close>

theorem users_table_latest_events:
  "distinct (users_table B (logs_view B raw))
   \<and> set (users_table B (logs_view B raw))
       = users_select B ` {a \<in> set (logs_view B raw). latest_of_user (logs_view B raw) a}
   \<and> (a \<in> set (logs_view B raw) \<and> latest_of_user (logs_view B raw) a
        \<and> (\<forall>b\<in>set (logs_view B raw).
              latest_of_user (logs_view B raw) b \<and> userId b = userId a
                \<longrightarrow> users_select B b = users_select B a)
       \<longrightarrow> length (user_rows B (logs_view B raw) (userId a)) = 1)"
proof (intro conjI impI)
  show "distinct (users_table B (logs_view B raw))" by (rule distinct_users_table)
  show "set (users_table B (logs_view B raw))
       = users_select B ` {a \<in> set (logs_view B raw). latest_of_user (logs_view B raw) a}"
    by (rule set_users_table)
next
  assume "a \<in> set (logs_view B raw) \<and> latest_of_user (logs_view B raw) a
        \<and> (\<forall>b\<in>set (logs_view B raw).
              latest_of_user (logs_view B raw) b \<and> userId b = userId a
                \<longrightarrow> users_select B b = users_select B a)"
  then show "length (user_rows B (logs_view B raw) (userId a)) = 1"
    using user_rows_single [of a "logs_view B raw" B] by blast
qed

text \<open>User 7 plays at 1000 (free) and 2000 (paid), user 8 at 1500: one row each, user 7 as paid.\<close>

theorem users_table_latest_events_witness:
  "map (\<lambda>r. (u_user_id r, u_level r)) (users_table utc (logs_view utc
       [play 1000 ''7'' ''free'' (Some ''Halo'') (Some ''Beyonce''),
        play 2000 ''7'' ''paid'' (Some ''Halo'') (Some ''Beyonce''),
        play 1500 ''8'' ''free'' None None]))
   = [(Some 7, Some ''paid''), (Some 8, Some ''free'')]
   \<and> length (user_rows utc (logs_view utc
       [play 1000 ''7'' ''free'' (Some ''Halo'') (Some ''Beyonce''),
        play 2000 ''7'' ''paid'' (Some ''Halo'') (Some ''Beyonce''),
        play 1500 ''8'' ''free'' None None]) (Some ''7'')) = 1"
proof (rule conjI)
  let ?raw = "[play 1000 ''7'' ''free'' (Some ''Halo'') (Some ''Beyonce''),
        play 2000 ''7'' ''paid'' (Some ''Halo'') (Some ''Beyonce''),
        play 1500 ''8'' ''free'' None None]"
  let ?a = "(add_start_time utc (play 2000 ''7'' ''paid'' (Some ''Halo'') (Some ''Beyonce'')))"
  show "map (\<lambda>r. (u_user_id r, u_level r)) (users_table utc (logs_view utc
       [play 1000 ''7'' ''free'' (Some ''Halo'') (Some ''Beyonce''),
        play 2000 ''7'' ''paid'' (Some ''Halo'') (Some ''Beyonce''),
        play 1500 ''8'' ''free'' None None]))
   = [(Some 7, Some ''paid''), (Some 8, Some ''free'')]"
    by code_simp
  have u: "userId ?a = Some ''7''" by code_simp
  have mem: "List.member (logs_view utc ?raw) ?a" by code_simp
  have latest: "latest_of_user (logs_view utc ?raw) ?a" by code_simp
  have "list_all (\<lambda>b. \<not> (latest_of_user (logs_view utc ?raw) b \<and> userId b = Some ''7'')
                       \<or> users_select utc b = users_select utc ?a) (logs_view utc ?raw)"
    by code_simp
  then have same: "\<forall>b\<in>set (logs_view utc ?raw).
      latest_of_user (logs_view utc ?raw) b \<and> userId b = userId ?a \<longrightarrow> users_select utc b = users_select utc ?a"
    unfolding list_all_iff u by blast
  have "?a \<in> set (logs_view utc ?raw)" using mem by (simp only: List.member_iff)
  then have "length (user_rows utc (logs_view utc ?raw) (userId ?a)) = 1"
    using users_table_latest_events [of utc ?raw ?a] latest same by blast
  then show "length (user_rows utc (logs_view utc
       [play 1000 ''7'' ''free'' (Some ''Halo'') (Some ''Beyonce''),
        play 2000 ''7'' ''paid'' (Some ''Halo'') (Some ''Beyonce''),
        play 1500 ''8'' ''free'' None None]) (Some ''7'')) = 1"
    by (simp only: u)
qed

text \<open>
  Claim C3 as stated fails: two plays of user 7 at the same, greatest timestamp, one
  with level free and one with level paid, give two rows for the one user id.
\<close>

theorem one_row_per_user_counterexample:
  "remdups (map userId (logs_view utc
       [play 1000 ''7'' ''free'' (Some ''Halo'') (Some ''Beyonce''),
        play 1000 ''7'' ''paid'' (Some ''Halo'') (Some ''Beyonce'')])) = [Some ''7'']
   \<and> map (\<lambda>r. (u_user_id r, u_level r)) (users_table utc (logs_view utc
       [play 1000 ''7'' ''free'' (Some ''Halo'') (Some ''Beyonce''),
        play 1000 ''7'' ''paid'' (Some ''Halo'') (Some ''Beyonce'')]))
     = [(Some 7, Some ''free''), (Some 7, Some ''paid'')]"
  by code_simp

text \<open>
  Claim C10. A filtered event whose user id is a string that the cast to \<open>int\<close> turns
  into NULL passes \<open>WHERE A.userId IS NOT NULL\<close>, which reads the string; when it is
  a latest event of its user id, the users table has its row, and the \<open>user_id\<close> of
  that row is NULL.
\<close>

theorem unparseable_user_id_null_row:
  assumes "a \<in> set (logs_view B raw)" and "userId a = Some u" and "cast_int B u = None"
    and "latest_of_user (logs_view B raw) a"
  shows "users_select B a \<in> set (users_table B (logs_view B raw)) \<and> u_user_id (users_select B a) = None"
proof
  show "users_select B a \<in> set (users_table B (logs_view B raw))"
    using assms(1,4) by (simp add: set_users_table)
  show "u_user_id (users_select B a) = None"
    using assms(2,3) by (simp add: users_select_def sql_cast_int_def)
qed

text \<open>The empty string as user id.\<close>

theorem unparseable_user_id_null_row_witness:
  "cast_int utc [] = None
   \<and> users_table utc (logs_view utc [play 1000 [] ''free'' None None])
     = [\<lparr>u_user_id = None, u_first_name = Some ''Ann'', u_last_name = Some ''Lee'',
         u_gender = Some ''F'', u_level = Some ''free''\<rparr>]
   \<and> users_select utc (add_start_time utc (play 1000 [] ''free'' None None))
       \<in> set (users_table utc (logs_view utc [play 1000 [] ''free'' None None]))"
proof (intro conjI)
  let ?raw = "[play 1000 [] ''free'' None None]"
  let ?a = "add_start_time utc (play 1000 [] ''free'' None None)"
  show c: "cast_int utc [] = None" by code_simp
  show "users_table utc (logs_view utc [play 1000 [] ''free'' None None])
     = [\<lparr>u_user_id = None, u_first_name = Some ''Ann'', u_last_name = Some ''Lee'',
         u_gender = Some ''F'', u_level = Some ''free''\<rparr>]"
    by code_simp
  have u: "userId ?a = Some []" by code_simp
  have mem: "List.member (logs_view utc ?raw) ?a" by code_simp
  have latest: "latest_of_user (logs_view utc ?raw) ?a" by code_simp
  have "?a \<in> set (logs_view utc ?raw)" using mem by (simp only: List.member_iff)
  then show "users_select utc ?a \<in> set (users_table utc (logs_view utc ?raw))"
    using unparseable_user_id_null_row [of ?a utc ?raw "[]"] u c latest by blast
qed

subsection \<open>The start time of an event\<close>

text \<open>
  Claim C7, as the program has it. The program divides the long by 1000.0 in double
  arithmetic and the cast multiplies by 1000000 and cuts the product off. For every
  event record whose timestamp \<open>ts\<close> is a long with \<open>1125899906843 \<le> ts < 2147483648000\<close>
  (from 5 September 2005, when the count of microseconds reaches \<open>2 ^ 50\<close>, to
  19 January 2038, when the count of seconds reaches \<open>2 ^ 31\<close>), \<open>start_time\<close> is exactly
  \<open>1000 * ts\<close> microseconds: the millisecond is preserved.
\<close>

theorem start_time_exact_2005_2038:
  assumes "to_timestamp B = long_to_timestamp" and "ts a = Some t"
    and "1125899906843 \<le> t" and "t < 2147483648000"
  shows "start_time (add_start_time B a) = Some (1000 * t)"
  using assms(1,2) spark_timestamp_exact [OF assms(3,4)]
  by (simp add: add_start_time_def long_to_timestamp_def)


text \<open>A timestamp of November 2018.\<close>

theorem start_time_exact_2005_2038_witness:
  "to_timestamp utc = long_to_timestamp
   \<and> ts (play (1541106106796::int) ''7'' ''free'' None None) = Some 1541106106796
   \<and> start_time (add_start_time utc (play 1541106106796 ''7'' ''free'' None None))
       = Some (1000 * 1541106106796)"
proof (intro conjI)
  show conv: "to_timestamp utc = long_to_timestamp" by (simp add: utc_def utc_with_def)
  show t: "ts (play (1541106106796::int) ''7'' ''free'' None None) = Some 1541106106796"
    by (simp add: play_def)
  show "start_time (add_start_time utc (play 1541106106796 ''7'' ''free'' None None))
       = Some (1000 * 1541106106796)"
    using start_time_exact_2005_2038 [OF conv t] by simp
qed

text \<open>
  Claim C7 as stated fails: for the timestamp 1001 the quotient is the double nearest
  to 1.001, which is below 1.001; its product with 1000000 is the double just below
  1001000, and the cast cuts it off to 1000999 microseconds.
\<close>

theorem start_time_millisecond_counterexample:
  "ts (play (1001::int) ''7'' ''free'' None None) = Some 1001
   \<and> start_time (add_start_time utc (play 1001 ''7'' ''free'' None None)) = Some 1000999"
  by code_simp

subsection \<open>A run on log data that lacks a column\<close>

text \<open>
  Claim C5, as the program has it. When the log data lacks one of the columns the
  program names (it has no column of that name, whatever the case of the letters),
  the run ends with an error and has written none of the users, time and songplays
  tables. \<open>main\<close> processes the song data first, so the songs and artists tables are
  written before the log data is read: when the song data has all of its columns,
  exactly these two tables have been written when the run ends.
\<close>

theorem missing_log_column_aborts:
  assumes "\<exists>c\<in>set log_columns. \<not> has_column (columns logs) c"
  shows "fst (main B songs logs) \<noteq> None
         \<and> set (map fst (snd (main B songs logs))) \<subseteq> {''songs/songs.parquet'', ''artists/artists.parquet''}
         \<and> ((\<forall>c\<in>set song_columns. has_column (columns songs) c) \<longrightarrow>
              snd (main B songs logs)
                = [(''songs/songs.parquet'', Songs (songs_table (rows songs))),
                   (''artists/artists.parquet'', Artists (artists_table (rows songs)))])"
proof (cases "process_song_data songs []")
  case (Pair r w)
  note abort = process_log_data_aborts [OF assms, of B songs w]
  have w: "set (map fst w) \<subseteq> {''songs/songs.parquet'', ''artists/artists.parquet''}"
    using process_song_data_writes [of songs] Pair by simp
  show ?thesis
  proof (cases r)
    case None
    then have m: "main B songs logs = process_log_data B logs songs w"
      using Pair by (simp add: main_def)
    have "(\<forall>c\<in>set song_columns. has_column (columns songs) c) \<longrightarrow>
            w = [(''songs/songs.parquet'', Songs (songs_table (rows songs))),
                 (''artists/artists.parquet'', Artists (artists_table (rows songs)))]"
      using process_song_data_ok [of songs] Pair by simp
    then show ?thesis using abort w by (simp only: m) blast
  next
    case (Some e)
    then have m: "main B songs logs = (Some e, w)" using Pair by (simp add: main_def)
    have "\<not> (\<forall>c\<in>set song_columns. has_column (columns songs) c)"
      using process_song_data_ok [of songs] Pair Some by auto
    then show ?thesis using w by (simp add: m) blast
  qed
qed

text \<open>
  Log data whose records have no key \<open>song\<close>, and whose user id is spelled \<open>USERID\<close>, which
  Spark resolves: the run ends at the \<open>select\<close>, on \<open>song\<close>.
\<close>

theorem missing_log_column_aborts_witness:
  "fst (main utc
     \<lparr>columns = [''song_id'', ''title'', ''artist_id'', ''artist_name'', ''artist_location'',
                 ''artist_latitude'', ''artist_longitude'', ''year'', ''duration''],
      rows = [track (Some ''S1'') (Some ''Halo'') (Some ''C1'') (Some ''Beyonce'')]\<rparr>
     \<lparr>columns = [''ts'', ''page'', ''USERID'', ''firstName'', ''lastName'', ''gender'', ''level'',
                 ''artist'', ''sessionId'', ''location'', ''userAgent''],
      rows = [play 1000 ''7'' ''free'' None (Some ''Beyonce'')]\<rparr>)
   = Some (AnalysisException ''song'')
   \<and> snd (main utc
     \<lparr>columns = [''song_id'', ''title'', ''artist_id'', ''artist_name'', ''artist_location'',
                 ''artist_latitude'', ''artist_longitude'', ''year'', ''duration''],
      rows = [track (Some ''S1'') (Some ''Halo'') (Some ''C1'') (Some ''Beyonce'')]\<rparr>
     \<lparr>columns = [''ts'', ''page'', ''USERID'', ''firstName'', ''lastName'', ''gender'', ''level'',
                 ''artist'', ''sessionId'', ''location'', ''userAgent''],
      rows = [play 1000 ''7'' ''free'' None (Some ''Beyonce'')]\<rparr>)
   = [(''songs/songs.parquet'',
       Songs (songs_table [track (Some ''S1'') (Some ''Halo'') (Some ''C1'') (Some ''Beyonce'')])),
      (''artists/artists.parquet'',
       Artists (artists_table [track (Some ''S1'') (Some ''Halo'') (Some ''C1'') (Some ''Beyonce'')]))]"
proof (rule conjI)
  let ?S = "\<lparr>columns = [''song_id'', ''title'', ''artist_id'', ''artist_name'', ''artist_location'',
                 ''artist_latitude'', ''artist_longitude'', ''year'', ''duration''],
      rows = [track (Some ''S1'') (Some ''Halo'') (Some ''C1'') (Some ''Beyonce'')]\<rparr>"
  let ?L = "\<lparr>columns = [''ts'', ''page'', ''USERID'', ''firstName'', ''lastName'', ''gender'', ''level'',
                 ''artist'', ''sessionId'', ''location'', ''userAgent''],
      rows = [play 1000 ''7'' ''free'' None (Some ''Beyonce'')]\<rparr>"
  show "fst (main utc
     \<lparr>columns = [''song_id'', ''title'', ''artist_id'', ''artist_name'', ''artist_location'',
                 ''artist_latitude'', ''artist_longitude'', ''year'', ''duration''],
      rows = [track (Some ''S1'') (Some ''Halo'') (Some ''C1'') (Some ''Beyonce'')]\<rparr>
     \<lparr>columns = [''ts'', ''page'', ''USERID'', ''firstName'', ''lastName'', ''gender'', ''level'',
                 ''artist'', ''sessionId'', ''location'', ''userAgent''],
      rows = [play 1000 ''7'' ''free'' None (Some ''Beyonce'')]\<rparr>)
   = Some (AnalysisException ''song'')"
    by code_simp
  have "List.member log_columns ''song''" by code_simp
  moreover have "\<not> has_column (columns ?L) ''song''" by code_simp
  ultimately have missing: "\<exists>c\<in>set log_columns. \<not> has_column (columns ?L) c"
    unfolding List.member_iff by blast
  have "list_all (has_column (columns ?S)) song_columns" by code_simp
  then have present: "\<forall>c\<in>set song_columns. has_column (columns ?S) c"
    unfolding list_all_iff .
  have "snd (main utc ?S ?L)
        = [(''songs/songs.parquet'', Songs (songs_table (rows ?S))),
           (''artists/artists.parquet'', Artists (artists_table (rows ?S)))]"
    using missing_log_column_aborts [OF missing, of utc ?S] present by blast
  then show "snd (main utc
     \<lparr>columns = [''song_id'', ''title'', ''artist_id'', ''artist_name'', ''artist_location'',
                 ''artist_latitude'', ''artist_longitude'', ''year'', ''duration''],
      rows = [track (Some ''S1'') (Some ''Halo'') (Some ''C1'') (Some ''Beyonce'')]\<rparr>
     \<lparr>columns = [''ts'', ''page'', ''USERID'', ''firstName'', ''lastName'', ''gender'', ''level'',
                 ''artist'', ''sessionId'', ''location'', ''userAgent''],
      rows = [play 1000 ''7'' ''free'' None (Some ''Beyonce'')]\<rparr>)
   = [(''songs/songs.parquet'',
       Songs (songs_table [track (Some ''S1'') (Some ''Halo'') (Some ''C1'') (Some ''Beyonce'')])),
      (''artists/artists.parquet'',
       Artists (artists_table [track (Some ''S1'') (Some ''Halo'') (Some ''C1'') (Some ''Beyonce'')]))]"
    by simp
qed

text \<open>
  Claim C5 as stated fails in both of its cases. On log data whose records have no key
  \<open>ts\<close> the run ends with an error after it has written the songs table and the
  artists table. On log data whose column \<open>ts\<close> holds strings, not longs, the run does
  not end with an error at all: Spark converts the strings where the program divides,
  and all five tables are written.
\<close>

theorem abort_before_any_output_counterexample:
  "main utc
     \<lparr>columns = [''song_id'', ''title'', ''artist_id'', ''artist_name'', ''artist_location'',
                 ''artist_latitude'', ''artist_longitude'', ''year'', ''duration''],
      rows = [track (Some ''S1'') (Some ''Halo'') (Some ''C1'') (Some ''Beyonce'')]\<rparr>
     \<lparr>columns = [''page'', ''userId'', ''firstName'', ''lastName'', ''gender'', ''level'',
                 ''song'', ''artist'', ''sessionId'', ''location'', ''userAgent''],
      rows = [(play 0 ''7'' ''free'' (Some ''Halo'') (Some ''Beyonce''))\<lparr>ts := None\<rparr>]\<rparr>
   = (Some (AnalysisException ''ts''),
      [(''songs/songs.parquet'',
        Songs [\<lparr>s_song_id = Some ''S1'', s_title = Some ''Halo'', s_artist_id = Some ''C1'',
                s_year = Some 2008, s_duration = Some 261\<rparr>]),
       (''artists/artists.parquet'',
        Artists [\<lparr>a_artist_id = Some ''C1'', a_name = Some ''Beyonce'', a_location = None,
                  a_latitude = None, a_longitude = None\<rparr>])])
   \<and> fst (main utc_text
     \<lparr>columns = [''song_id'', ''title'', ''artist_id'', ''artist_name'', ''artist_location'',
                 ''artist_latitude'', ''artist_longitude'', ''year'', ''duration''],
      rows = [track (Some ''S1'') (Some ''Halo'') (Some ''C1'') (Some ''Beyonce'')]\<rparr>
     \<lparr>columns = [''ts'', ''page'', ''userId'', ''firstName'', ''lastName'', ''gender'', ''level'',
                 ''song'', ''artist'', ''sessionId'', ''location'', ''userAgent''],
      rows = [play ''1541106106796'' ''7'' ''free'' (Some ''Halo'') (Some ''Beyonce'')]\<rparr>) = None
   \<and> map fst (snd (main utc_text
     \<lparr>columns = [''song_id'', ''title'', ''artist_id'', ''artist_name'', ''artist_location'',
                 ''artist_latitude'', ''artist_longitude'', ''year'', ''duration''],
      rows = [track (Some ''S1'') (Some ''Halo'') (Some ''C1'') (Some ''Beyonce'')]\<rparr>
     \<lparr>columns = [''ts'', ''page'', ''userId'', ''firstName'', ''lastName'', ''gender'', ''level'',
                 ''song'', ''artist'', ''sessionId'', ''location'', ''userAgent''],
      rows = [play ''1541106106796'' ''7'' ''free'' (Some ''Halo'') (Some ''Beyonce'')]\<rparr>))
     = [''songs/songs.parquet'', ''artists/artists.parquet'', ''users/users.parquet'',
        ''time/time.parquet'', ''songplays/songplays.parquet'']"
  by code_simp

end
